theory Spec2Isabelle
  imports Complex_Main "HOL-Library.AList"
begin

section \<open>The weather exporter: data model\<close>

text \<open>
  The repository holds three revisions of one Go program:
  \<^item> \<^verbatim>\<open>main.go\<close>: two fixed gauges (temperature, apparent temperature) refreshed by a
    background loop;
  \<^item> the collector revision: a \<^verbatim>\<open>WeatherCollector\<close> whose \<^verbatim>\<open>Collect\<close> fetches the weather
    on every scrape;
  \<^item> the gauge-map revision: one gauge per configured metric, refreshed by a background
    loop.
  \<^verbatim>\<open>Location\<close>, \<^verbatim>\<open>getLocation\<close> and \<^verbatim>\<open>getWeather\<close> are the same in all three;
  \<^verbatim>\<open>getValueByFieldName\<close> is the same in the last two.

  A \<^verbatim>\<open>float64\<close> is a finite value, modelled by the real number it denotes, or the
  negative zero, which \<^verbatim>\<open>%f\<close> prints with its sign. The values come out of JSON decoders,
  which produce neither NaN nor an infinity, and the program only copies and formats them,
  so rounding in arithmetic plays no part.
\<close>

datatype float64 = Finite real | NegativeZero

record Config =
  Locations :: "string list"
  Metrics :: "string list"
  GoogleMapsAPIKey :: string
  DarkskyAPIKey :: string

record Location =
  Name :: string
  Lat :: float64
  Lng :: float64

text \<open>The parts of the geocoding response the program reads
  (\<^verbatim>\<open>resp[0].AddressComponents[0].LongName\<close>, \<^verbatim>\<open>resp[0].Geometry.Location.Lat\<close>, \<^verbatim>\<open>.Lng\<close>).\<close>

record AddressComponent =
  LongName :: string

record GeocodingResult =
  AddressComponents :: "AddressComponent list"
  GeometryLocationLat :: float64
  GeometryLocationLng :: float64

text \<open>The parts of the forecast response the program reads (\<^verbatim>\<open>fc.Flags.Units\<close>,
  \<^verbatim>\<open>fc.Latitude\<close>, \<^verbatim>\<open>fc.Longitude\<close>, \<^verbatim>\<open>fc.Currently\<close>).\<close>

record DataPoint =
  Temperature :: float64
  ApparentTemperature :: float64
  WindSpeed :: float64
  CloudCover :: float64
  Humidity :: float64
  PrecipIntensity :: float64

record Forecast =
  Latitude :: float64
  Longitude :: float64
  FlagsUnits :: string
  Currently :: DataPoint

text \<open>Errors are values. \<open>LibraryError\<close> is an error of a library (its message);
  the wrapping constructors are the program's \<^verbatim>\<open>fmt.Errorf("...: %w", err)\<close>.\<close>

datatype error =
    LibraryError string
  | FailedToReadConfigFile error
  | FailedToUnmarshalConfig error
  | NoLocationFound string
  | GMapsSearchFailed error
  | ForecastRequestFailed error
  | UnitsNotSI string
  | UnsupportedField string

text \<open>A call returns a value, returns an error, or panics (an index out of range).\<close>

datatype 'a result = Ok 'a | Err error | Panic

section \<open>Formatting\<close>

text \<open>\<^verbatim>\<open>fmt.Sprintf("%f", x)\<close>: sign, integer part, a point and six fractional digits,
  the value rounded to the nearest multiple of \<open>10\<^sup>-\<^sup>6\<close>, a tie to the even one.\<close>

definition digit :: "nat \<Rightarrow> char" where
  "digit d = ''0123456789'' ! (d mod 10)"

fun decimal :: "nat \<Rightarrow> string" where
  "decimal n = (if n < 10 then [digit n] else decimal (n div 10) @ [digit n])"

definition fraction6 :: "nat \<Rightarrow> string" where
  "fraction6 m = map (\<lambda>i. digit (m div 10 ^ i)) [5, 4, 3, 2, 1, 0]"

definition roundHalfEven :: "real \<Rightarrow> int" where
  "roundHalfEven x =
     (let f = \<lfloor>x\<rfloor>; d = x - of_int f
      in if d < 1 / 2 then f
         else if 1 / 2 < d then f + 1
         else if even f then f else f + 1)"

fun Sprintf_f :: "float64 \<Rightarrow> string" where
  "Sprintf_f (Finite x) =
     (let n = nat (roundHalfEven (\<bar>x\<bar> * 1000000))
      in (if x < 0 then ''-'' else '''') @ decimal (n div 1000000) @ ''.'' @ fraction6 (n mod 1000000))"
| "Sprintf_f NegativeZero = ''-0.000000''"

definition LatString :: "Location \<Rightarrow> string" where
  "LatString l = Sprintf_f (Lat l)"

definition LngString :: "Location \<Rightarrow> string" where
  "LngString l = Sprintf_f (Lng l)"

section \<open>The metric extractor\<close>

definition getValueByFieldName :: "string \<Rightarrow> DataPoint \<Rightarrow> error + float64" where
  "getValueByFieldName field dp =
     (if field = ''temperature'' then Inr (Temperature dp)
      else if field = ''apparent_temperature'' then Inr (ApparentTemperature dp)
      else if field = ''wind_speed'' then Inr (WindSpeed dp)
      else if field = ''cloud_cover'' then Inr (CloudCover dp)
      else if field = ''humidity'' then Inr (Humidity dp)
      else if field = ''precip_intensity'' then Inr (PrecipIntensity dp)
      else Inl (UnsupportedField field))"

definition supportedFields :: "string list" where
  "supportedFields =
     [''temperature'', ''apparent_temperature'', ''wind_speed'', ''cloud_cover'',
      ''humidity'', ''precip_intensity'']"

section \<open>The upstream services\<close>

text \<open>
  The geocoder and the forecast service are outside the program. Every request to one of
  them is logged in a trace of calls, and a service's answer may depend on the trace so
  far (the answers change over time). \<open>NewClient\<close> builds a client and contacts nothing.
\<close>

datatype call = GeocodeCall string | ForecastCall string string

record Upstream =
  NewClient :: "string \<Rightarrow> error option"
  Geocode :: "call list \<Rightarrow> string \<Rightarrow> string \<Rightarrow> error + GeocodingResult list"
  ForecastGet :: "call list \<Rightarrow> string \<Rightarrow> string \<Rightarrow> string \<Rightarrow> error + Forecast"

text \<open>\<^verbatim>\<open>string(forecast.SI)\<close>, the unit system the program asks for.\<close>

definition SI :: string where
  "SI = ''si''"

definition getLocation :: "Upstream \<Rightarrow> string \<Rightarrow> string \<Rightarrow> call list \<Rightarrow> Location result \<times> call list" where
  "getLocation up apikey locName h =
     (case NewClient up apikey of
        Some err \<Rightarrow> (Err err, h)
      | None \<Rightarrow>
          (let h' = h @ [GeocodeCall locName]
           in case Geocode up h apikey locName of
                Inl err \<Rightarrow> (Err err, h')
              | Inr [] \<Rightarrow> (Err (NoLocationFound locName), h')
              | Inr (r # _) \<Rightarrow>
                  (case AddressComponents r of
                     [] \<Rightarrow> (Panic, h')
                   | c # _ \<Rightarrow>
                       (Ok \<lparr>Name = LongName c, Lat = GeometryLocationLat r,
                            Lng = GeometryLocationLng r\<rparr>, h'))))"

definition getWeather ::
  "Upstream \<Rightarrow> string \<Rightarrow> string \<Rightarrow> string \<Rightarrow> call list \<Rightarrow> Forecast result \<times> call list" where
  "getWeather up mapsAPIKey darkskyAPIKey locName h =
     (case getLocation up mapsAPIKey locName h of
        (Err err, h1) \<Rightarrow> (Err (GMapsSearchFailed err), h1)
      | (Panic, h1) \<Rightarrow> (Panic, h1)
      | (Ok loc, h1) \<Rightarrow>
          (let h2 = h1 @ [ForecastCall (LatString loc) (LngString loc)]
           in case ForecastGet up h1 darkskyAPIKey (LatString loc) (LngString loc) of
                Inl err \<Rightarrow> (Err (ForecastRequestFailed err), h2)
              | Inr fc \<Rightarrow>
                  if FlagsUnits fc \<noteq> SI then (Err (UnitsNotSI (FlagsUnits fc)), h2)
                  else (Ok fc, h2)))"

section \<open>Metrics\<close>

text \<open>A \<^verbatim>\<open>prometheus.Desc\<close>, a sample (a metric with its label values and value), and a
  \<^verbatim>\<open>GaugeVec\<close>: a descriptor and one child per tuple of label values. A Go map is an
  association list with distinct keys; \<^verbatim>\<open>range\<close> visits its entries in an unspecified
  order, and the loops below touch only the entry they visit.\<close>

record Desc =
  fqName :: string
  helpText :: string
  variableLabels :: "string list"

record Metric =
  metricDesc :: Desc
  metricValue :: float64
  labelValues :: "string list"

record GaugeVec =
  gaugeDesc :: Desc
  children :: "(string list \<times> float64) list"

definition NewDesc :: "string \<Rightarrow> string \<Rightarrow> string list \<Rightarrow> Desc" where
  "NewDesc name hlp labels = \<lparr>fqName = name, helpText = hlp, variableLabels = labels\<rparr>"

definition NewGaugeVec :: "string \<Rightarrow> string \<Rightarrow> string list \<Rightarrow> GaugeVec" where
  "NewGaugeVec name hlp labels = \<lparr>gaugeDesc = NewDesc name hlp labels, children = []\<rparr>"

definition MustNewConstMetric :: "Desc \<Rightarrow> float64 \<Rightarrow> string list \<Rightarrow> Metric" where
  "MustNewConstMetric desc val lvs = \<lparr>metricDesc = desc, metricValue = val, labelValues = lvs\<rparr>"

text \<open>\<^verbatim>\<open>gauge.WithLabelValues(lvs...).Set(val)\<close>\<close>

definition WithLabelValuesSet :: "GaugeVec \<Rightarrow> string list \<Rightarrow> float64 \<Rightarrow> GaugeVec" where
  "WithLabelValuesSet gauge lvs val = gauge\<lparr>children := AList.update lvs val (children gauge)\<rparr>"

text \<open>What a scrape reads from a registered gauge: one sample per child.\<close>

definition gatherGaugeVec :: "GaugeVec \<Rightarrow> Metric list" where
  "gatherGaugeVec gauge = map (\<lambda>(lvs, val). MustNewConstMetric (gaugeDesc gauge) val lvs) (children gauge)"

text \<open>
  What the library's registry and HTTP handler do with the samples a collector sends
  during a scrape: when two of them have the same name and label values the scrape fails
  (the handler answers with an error and no sample), otherwise they are served. The handler
  sorts the samples and serves those of the library's default collectors next to them; the
  model gives the program's own samples, as a set.
\<close>

definition sampleKey :: "Metric \<Rightarrow> string \<times> string list" where
  "sampleKey m = (fqName (metricDesc m), labelValues m)"

definition gather :: "Metric list \<Rightarrow> error + Metric set" where
  "gather ms =
     (if distinct (map sampleKey ms) then Inr (set ms)
      else Inl (LibraryError ''collected before with the same name and label values''))"

text \<open>\<^verbatim>\<open>strings.Replace(key, "_", " ", -1)\<close>\<close>

definition ReplaceUnderscores :: "string \<Rightarrow> string" where
  "ReplaceUnderscores key = map (\<lambda>c. if c = CHR ''_'' then CHR '' '' else c) key"

definition metricLabels :: "string list" where
  "metricLabels = [''location'', ''latitude'', ''longitude'']"

text \<open>The label values both later revisions and \<^verbatim>\<open>main.go\<close> attach:
  \<^verbatim>\<open>loc, fmt.Sprintf("%f", fc.Latitude), fmt.Sprintf("%f", fc.Longitude)\<close>.\<close>

definition sampleLabelValues :: "string \<Rightarrow> Forecast \<Rightarrow> string list" where
  "sampleLabelValues loc fc = [loc, Sprintf_f (Latitude fc), Sprintf_f (Longitude fc)]"

text \<open>The state every revision has while it runs: the trace of upstream calls, and
  whether a panic has ended the process.\<close>

record Runtime =
  calls :: "call list"
  panicked :: bool

section \<open>The collector revision\<close>

record WeatherCollector =
  descs :: "(string \<times> Desc) list"
  locations :: "string list"
  gmapsAPIKey :: string
  darkskyAPIKey :: string

definition NewWeatherCollector ::
  "string list \<Rightarrow> (string \<times> Desc) list \<Rightarrow> string \<Rightarrow> string \<Rightarrow> WeatherCollector" where
  "NewWeatherCollector locs ds gmapsKey darkskyKey =
     \<lparr>descs = ds, locations = locs, gmapsAPIKey = gmapsKey, darkskyAPIKey = darkskyKey\<rparr>"

fun getDescsFrom :: "string list \<Rightarrow> (string \<times> Desc) list \<Rightarrow> (string \<times> Desc) list" where
  "getDescsFrom [] ds = ds"
| "getDescsFrom (key # keys) ds =
     getDescsFrom keys
       (AList.update key
          (NewDesc (''weather_'' @ key) (''Weather forecast - '' @ ReplaceUnderscores key) metricLabels)
          ds)"

definition getDescs :: "string list \<Rightarrow> (string \<times> Desc) list" where
  "getDescs metrics = getDescsFrom metrics []"

text \<open>The inner loop of \<^verbatim>\<open>Collect\<close>: the samples sent for one location with a reading.\<close>

definition collectValues :: "(string \<times> Desc) list \<Rightarrow> string \<Rightarrow> Forecast \<Rightarrow> Metric list" where
  "collectValues ds loc fc =
     concat (map (\<lambda>(key, desc).
        case getValueByFieldName key (Currently fc) of
          Inl err \<Rightarrow> []
        | Inr val \<Rightarrow> [MustNewConstMetric desc val (sampleLabelValues loc fc)]) ds)"

fun CollectFrom :: "Upstream \<Rightarrow> WeatherCollector \<Rightarrow> string list \<Rightarrow> Runtime \<Rightarrow> Metric list \<times> Runtime" where
  "CollectFrom up wc [] rt = ([], rt)"
| "CollectFrom up wc (loc # locs) rt =
     (case getWeather up (gmapsAPIKey wc) (darkskyAPIKey wc) loc (calls rt) of
        (Panic, h) \<Rightarrow> ([], rt\<lparr>calls := h, panicked := True\<rparr>)
      | (Err err, h) \<Rightarrow> CollectFrom up wc locs (rt\<lparr>calls := h\<rparr>)
      | (Ok fc, h) \<Rightarrow>
          (case CollectFrom up wc locs (rt\<lparr>calls := h\<rparr>) of
             (ms, rt') \<Rightarrow> (collectValues (descs wc) loc fc @ ms, rt')))"

definition Collect :: "Upstream \<Rightarrow> WeatherCollector \<Rightarrow> Runtime \<Rightarrow> Metric list \<times> Runtime" where
  "Collect up wc rt = CollectFrom up wc (locations wc) rt"

text \<open>\<^verbatim>\<open>Describe\<close> is \<^verbatim>\<open>prometheus.DescribeByCollect\<close>: it runs \<^verbatim>\<open>Collect\<close> and keeps the
  descriptors of the samples.\<close>

definition Describe :: "Upstream \<Rightarrow> WeatherCollector \<Rightarrow> Runtime \<Rightarrow> Desc list \<times> Runtime" where
  "Describe up wc rt = (case Collect up wc rt of (ms, rt') \<Rightarrow> (map metricDesc ms, rt'))"

text \<open>A scrape of the collector revision: the registry calls \<^verbatim>\<open>Collect\<close> and gathers what
  it sends.\<close>

definition serveMetrics_collector ::
  "Upstream \<Rightarrow> WeatherCollector \<Rightarrow> Runtime \<Rightarrow> (error + Metric set) \<times> Runtime" where
  "serveMetrics_collector up wc rt = (case Collect up wc rt of (ms, rt') \<Rightarrow> (gather ms, rt'))"

section \<open>The gauge-map revision\<close>

record GaugeProcess = Runtime +
  gauges :: "(string \<times> GaugeVec) list"

text \<open>The loop under \<^verbatim>\<open>// update values\<close>.\<close>

definition updateGauges :: "string \<Rightarrow> Forecast \<Rightarrow> (string \<times> GaugeVec) list \<Rightarrow> (string \<times> GaugeVec) list" where
  "updateGauges loc fc gs =
     map (\<lambda>(key, gauge).
        case getValueByFieldName key (Currently fc) of
          Inl err \<Rightarrow> (key, gauge)
        | Inr val \<Rightarrow> (key, WithLabelValuesSet gauge (sampleLabelValues loc fc) val)) gs"

text \<open>One pass of the background loop over the configured locations.\<close>

fun fetchWeather_gauges :: "Upstream \<Rightarrow> Config \<Rightarrow> string list \<Rightarrow> GaugeProcess \<Rightarrow> GaugeProcess" where
  "fetchWeather_gauges up config [] st = st"
| "fetchWeather_gauges up config (loc # locs) st =
     (case getWeather up (GoogleMapsAPIKey config) (DarkskyAPIKey config) loc (calls st) of
        (Panic, h) \<Rightarrow> st\<lparr>calls := h, panicked := True\<rparr>
      | (Err err, h) \<Rightarrow> fetchWeather_gauges up config locs (st\<lparr>calls := h\<rparr>)
      | (Ok fc, h) \<Rightarrow>
          fetchWeather_gauges up config locs
            (st\<lparr>calls := h, gauges := updateGauges loc fc (gauges st)\<rparr>))"

text \<open>The background loop never ends; \<open>n\<close> is the number of passes observed.\<close>

fun refreshLoop_gauges :: "nat \<Rightarrow> Upstream \<Rightarrow> Config \<Rightarrow> GaugeProcess \<Rightarrow> GaugeProcess" where
  "refreshLoop_gauges 0 up config st = st"
| "refreshLoop_gauges (Suc n) up config st =
     (let st' = fetchWeather_gauges up config (Locations config) st
      in if panicked st' then st' else refreshLoop_gauges n up config st')"

text \<open>A scrape of the gauge-map revision: the registry reads the registered gauges. They
  cannot send a sample twice (a gauge holds one child per tuple of label values, and the
  registry admits one gauge per name), so the scrape serves the samples of all of them.\<close>

definition serveMetrics_gauges :: "GaugeProcess \<Rightarrow> Metric set \<times> GaugeProcess" where
  "serveMetrics_gauges st =
     (set (concat (map (\<lambda>(key, gauge). gatherGaugeVec gauge) (gauges st))), st)"

section \<open>The fixed-gauge revision (\<^verbatim>\<open>main.go\<close>)\<close>

record FixedProcess = Runtime +
  weatherTemperatureGauge :: GaugeVec
  weatherApparentTemperatureGauge :: GaugeVec

fun fetchWeather_fixed :: "Upstream \<Rightarrow> Config \<Rightarrow> string list \<Rightarrow> FixedProcess \<Rightarrow> FixedProcess" where
  "fetchWeather_fixed up config [] st = st"
| "fetchWeather_fixed up config (loc # locs) st =
     (case getWeather up (GoogleMapsAPIKey config) (DarkskyAPIKey config) loc (calls st) of
        (Panic, h) \<Rightarrow> st\<lparr>calls := h, panicked := True\<rparr>
      | (Err err, h) \<Rightarrow> fetchWeather_fixed up config locs (st\<lparr>calls := h\<rparr>)
      | (Ok fc, h) \<Rightarrow>
          fetchWeather_fixed up config locs
            (st\<lparr>calls := h,
               weatherTemperatureGauge :=
                 WithLabelValuesSet (weatherTemperatureGauge st) (sampleLabelValues loc fc)
                   (Temperature (Currently fc)),
               weatherApparentTemperatureGauge :=
                 WithLabelValuesSet (weatherApparentTemperatureGauge st) (sampleLabelValues loc fc)
                   (ApparentTemperature (Currently fc))\<rparr>))"

fun refreshLoop_fixed :: "nat \<Rightarrow> Upstream \<Rightarrow> Config \<Rightarrow> FixedProcess \<Rightarrow> FixedProcess" where
  "refreshLoop_fixed 0 up config st = st"
| "refreshLoop_fixed (Suc n) up config st =
     (let st' = fetchWeather_fixed up config (Locations config) st
      in if panicked st' then st' else refreshLoop_fixed n up config st')"

definition serveMetrics_fixed :: "FixedProcess \<Rightarrow> Metric set \<times> FixedProcess" where
  "serveMetrics_fixed st =
     (set (gatherGaugeVec (weatherTemperatureGauge st) @
           gatherGaugeVec (weatherApparentTemperatureGauge st)), st)"

section \<open>Startup\<close>

text \<open>What \<^verbatim>\<open>main\<close> meets at startup: the file system, the JSON decoder of the
  configuration, and the outcome of the \<open>n\<close>-th call of \<^verbatim>\<open>prometheus.Register\<close>.\<close>

record Host =
  ReadFile :: "string \<Rightarrow> error + string"
  Unmarshal :: "string \<Rightarrow> error + Config"
  Register :: "nat \<Rightarrow> error option"

definition LoadConfig :: "Host \<Rightarrow> string \<Rightarrow> error + Config" where
  "LoadConfig host filepath =
     (case ReadFile host filepath of
        Inl err \<Rightarrow> Inl (FailedToReadConfigFile err)
      | Inr data \<Rightarrow>
          (case Unmarshal host data of
             Inl err \<Rightarrow> Inl (FailedToUnmarshalConfig err)
           | Inr config \<Rightarrow> Inr config))"

text \<open>The \<^verbatim>\<open>log.Fatalf\<close> exits of \<^verbatim>\<open>main\<close>, and how startup ends: a fatal exit, a panic,
  or the process reaching \<^verbatim>\<open>http.ListenAndServe\<close> with its state.\<close>

datatype fatal =
    FailedToLoadConfigurationFile string error
  | MustSpecifyAtLeastOneLocation
  | MustSpecifyAtLeastOneMetric
  | FailedToRegister string error

datatype 'p startup = Fatal fatal | Crashed | Serving 'p

definition main_fixed :: "Host \<Rightarrow> string \<Rightarrow> (Config \<times> FixedProcess) startup" where
  "main_fixed host flagConfigFile =
     (case LoadConfig host flagConfigFile of
        Inl err \<Rightarrow> Fatal (FailedToLoadConfigurationFile flagConfigFile err)
      | Inr config \<Rightarrow>
          (let tg = NewGaugeVec ''weather_temperature'' ''Weather forecast - temperature'' metricLabels;
               ag = NewGaugeVec ''weather_apparent_temperature''
                      ''Weather forecast - apparent temperature'' metricLabels
           in case Register host 0 of
                Some err \<Rightarrow> Fatal (FailedToRegister ''temperature'' err)
              | None \<Rightarrow>
                  (case Register host 1 of
                     Some err \<Rightarrow> Fatal (FailedToRegister ''temperature'' err)
                   | None \<Rightarrow>
                       Serving (config, \<lparr>calls = [], panicked = False,
                         weatherTemperatureGauge = tg, weatherApparentTemperatureGauge = ag\<rparr>))))"

definition main_collector ::
  "Host \<Rightarrow> Upstream \<Rightarrow> string \<Rightarrow> (WeatherCollector \<times> Runtime) startup" where
  "main_collector host up flagConfigFile =
     (case LoadConfig host flagConfigFile of
        Inl err \<Rightarrow> Fatal (FailedToLoadConfigurationFile flagConfigFile err)
      | Inr config \<Rightarrow>
          if length (Locations config) = 0 then Fatal MustSpecifyAtLeastOneLocation
          else if length (Metrics config) = 0 then Fatal MustSpecifyAtLeastOneMetric
          else
            (let wc = NewWeatherCollector (Locations config) (getDescs (Metrics config))
                        (GoogleMapsAPIKey config) (DarkskyAPIKey config)
             in case Describe up wc \<lparr>calls = [], panicked = False\<rparr> of
                  (ds, rt) \<Rightarrow>
                    if panicked rt then Crashed
                    else (case Register host 0 of
                            Some err \<Rightarrow> Fatal (FailedToRegister ''collector'' err)
                          | None \<Rightarrow> Serving (wc, rt))))"

fun registerGauges ::
  "Host \<Rightarrow> string list \<Rightarrow> nat \<Rightarrow> (string \<times> GaugeVec) list \<Rightarrow> fatal + (string \<times> GaugeVec) list" where
  "registerGauges host [] n gs = Inr gs"
| "registerGauges host (key # keys) n gs =
     (let gs' = AList.update key
                  (NewGaugeVec (''weather_'' @ key) (''Weather forecast - '' @ ReplaceUnderscores key)
                     metricLabels) gs
      in case Register host n of
           Some err \<Rightarrow> Inl (FailedToRegister key err)
         | None \<Rightarrow> registerGauges host keys (Suc n) gs')"

definition main_gauges :: "Host \<Rightarrow> string \<Rightarrow> (Config \<times> GaugeProcess) startup" where
  "main_gauges host flagConfigFile =
     (case LoadConfig host flagConfigFile of
        Inl err \<Rightarrow> Fatal (FailedToLoadConfigurationFile flagConfigFile err)
      | Inr config \<Rightarrow>
          if length (Locations config) = 0 then Fatal MustSpecifyAtLeastOneLocation
          else if length (Metrics config) = 0 then Fatal MustSpecifyAtLeastOneMetric
          else (case registerGauges host (Metrics config) 0 [] of
                  Inl f \<Rightarrow> Fatal f
                | Inr gs \<Rightarrow> Serving (config, \<lparr>calls = [], panicked = False, gauges = gs\<rparr>)))"

section \<open>The forecast reading on the wire\<close>

text \<open>
  The forecast library decodes the \<^verbatim>\<open>currently\<close> object of the service's JSON answer
  into a \<^verbatim>\<open>DataPoint\<close> with \<^verbatim>\<open>encoding/json\<close>: a member that is absent leaves the
  field at Go's zero value. The members are those of the Dark Sky data point.
\<close>

definition member :: "(string \<rightharpoonup> float64) \<Rightarrow> string \<Rightarrow> float64" where
  "member js name = (case js name of None \<Rightarrow> Finite 0 | Some v \<Rightarrow> v)"

definition decodeDataPoint :: "(string \<rightharpoonup> float64) \<Rightarrow> DataPoint" where
  "decodeDataPoint js =
     \<lparr>Temperature = member js ''temperature'',
      ApparentTemperature = member js ''apparentTemperature'',
      WindSpeed = member js ''windSpeed'',
      CloudCover = member js ''cloudCover'',
      Humidity = member js ''humidity'',
      PrecipIntensity = member js ''precipIntensity''\<rparr>"

text \<open>The JSON member behind each supported metric name.\<close>

definition wireName :: "string \<Rightarrow> string" where
  "wireName field =
     (if field = ''apparent_temperature'' then ''apparentTemperature''
      else if field = ''wind_speed'' then ''windSpeed''
      else if field = ''cloud_cover'' then ''cloudCover''
      else if field = ''precip_intensity'' then ''precipIntensity''
      else field)"

section \<open>Notions used in the statements\<close>

text \<open>The descriptor \<^verbatim>\<open>getDescs\<close> builds for a configured metric name.\<close>

definition metricDescFor :: "string \<Rightarrow> Desc" where
  "metricDescFor key =
     NewDesc (''weather_'' @ key) (''Weather forecast - '' @ ReplaceUnderscores key) metricLabels"

text \<open>The children of a gauge whose \<^verbatim>\<open>location\<close> label is \<open>loc\<close>, and those of every gauge
  of the gauge map.\<close>

definition forLocation :: "string \<Rightarrow> string list \<times> float64 \<Rightarrow> bool" where
  "forLocation loc child = (case fst child of [] \<Rightarrow> False | l # ls \<Rightarrow> l = loc)"

definition locationChildren :: "string \<Rightarrow> GaugeVec \<Rightarrow> (string list \<times> float64) list" where
  "locationChildren loc gauge = filter (forLocation loc) (children gauge)"

definition storedFor :: "string \<Rightarrow> (string \<times> GaugeVec) list \<Rightarrow> (string \<times> (string list \<times> float64) list) list" where
  "storedFor loc gs = map (\<lambda>(key, gauge). (key, locationChildren loc gauge)) gs"

text \<open>Every fetch for \<open>loc\<close> fails in the pass over \<open>locs\<close> that starts with trace \<open>h\<close>.\<close>

fun fetchFailsInPass :: "Upstream \<Rightarrow> Config \<Rightarrow> string \<Rightarrow> string list \<Rightarrow> call list \<Rightarrow> bool" where
  "fetchFailsInPass up config loc [] h = True"
| "fetchFailsInPass up config loc (loc' # locs) h =
     (case getWeather up (GoogleMapsAPIKey config) (DarkskyAPIKey config) loc' h of
        (Panic, h') \<Rightarrow> True
      | (Err err, h') \<Rightarrow> fetchFailsInPass up config loc locs h'
      | (Ok fc, h') \<Rightarrow> loc' \<noteq> loc \<and> fetchFailsInPass up config loc locs h')"

text \<open>A decimal string with six fractional digits: an optional minus sign, at least one
  digit, a point and exactly six digits.\<close>

definition isDigit :: "char \<Rightarrow> bool" where
  "isDigit c = (c \<in> set ''0123456789'')"

definition sixFractionalDigits :: "string \<Rightarrow> bool" where
  "sixFractionalDigits s =
     (let whole = take (length s - 7) s;
          digits = (case whole of [] \<Rightarrow> [] | c # cs \<Rightarrow> if c = CHR ''-'' then cs else whole)
      in 8 \<le> length s \<and> digits \<noteq> [] \<and> list_all isDigit digits \<and>
         s ! (length s - 7) = CHR ''.'' \<and> list_all isDigit (drop (length s - 6) s))"

text \<open>
  The readings a pass of the background loop fetches when it starts with trace \<open>h\<close>, in
  the order of the pass, the trace the pass ends with, and whether a panic ends it. They
  follow the calls of \<^verbatim>\<open>getWeather\<close> only, not what the loop does with a reading.
\<close>

fun readingsInPass :: "Upstream \<Rightarrow> Config \<Rightarrow> string list \<Rightarrow> call list \<Rightarrow> (string \<times> Forecast) list" where
  "readingsInPass up config [] h = []"
| "readingsInPass up config (loc # locs) h =
     (case getWeather up (GoogleMapsAPIKey config) (DarkskyAPIKey config) loc h of
        (Panic, h') \<Rightarrow> []
      | (Err err, h') \<Rightarrow> readingsInPass up config locs h'
      | (Ok fc, h') \<Rightarrow> (loc, fc) # readingsInPass up config locs h')"

fun traceAfterPass :: "Upstream \<Rightarrow> Config \<Rightarrow> string list \<Rightarrow> call list \<Rightarrow> call list" where
  "traceAfterPass up config [] h = h"
| "traceAfterPass up config (loc # locs) h =
     (case getWeather up (GoogleMapsAPIKey config) (DarkskyAPIKey config) loc h of
        (Panic, h') \<Rightarrow> h'
      | (Err err, h') \<Rightarrow> traceAfterPass up config locs h'
      | (Ok fc, h') \<Rightarrow> traceAfterPass up config locs h')"

fun panicInPass :: "Upstream \<Rightarrow> Config \<Rightarrow> string list \<Rightarrow> call list \<Rightarrow> bool" where
  "panicInPass up config [] h = False"
| "panicInPass up config (loc # locs) h =
     (case getWeather up (GoogleMapsAPIKey config) (DarkskyAPIKey config) loc h of
        (Panic, h') \<Rightarrow> True
      | (Err err, h') \<Rightarrow> panicInPass up config locs h'
      | (Ok fc, h') \<Rightarrow> panicInPass up config locs h')"

text \<open>The readings fetched in \<open>n\<close> passes; a pass that panics is the last one.\<close>

fun readingsInPasses :: "nat \<Rightarrow> Upstream \<Rightarrow> Config \<Rightarrow> call list \<Rightarrow> (string \<times> Forecast) list" where
  "readingsInPasses 0 up config h = []"
| "readingsInPasses (Suc n) up config h =
     readingsInPass up config (Locations config) h @
     (if panicInPass up config (Locations config) h then []
      else readingsInPasses n up config (traceAfterPass up config (Locations config) h))"

text \<open>The label values a reading is stored under.\<close>

definition labelsOfReading :: "string \<times> Forecast \<Rightarrow> string list" where
  "labelsOfReading r = sampleLabelValues (fst r) (snd r)"

text \<open>
  The writes a list of readings makes to the gauge of a metric (gauge-map revision) and to
  the gauge of a fixed field (\<^verbatim>\<open>main.go\<close>), in order, and what a sequence of writes and a
  list of readings leave in the children of a gauge.
\<close>

definition writesOf :: "string \<Rightarrow> (string \<times> Forecast) list \<Rightarrow> (string list \<times> float64) list" where
  "writesOf key rs =
     concat (map (\<lambda>r. case getValueByFieldName key (Currently (snd r)) of
        Inl err \<Rightarrow> [] | Inr val \<Rightarrow> [(labelsOfReading r, val)]) rs)"

definition writesOfField :: "(DataPoint \<Rightarrow> float64) \<Rightarrow> (string \<times> Forecast) list \<Rightarrow> (string list \<times> float64) list" where
  "writesOfField f rs = map (\<lambda>r. (labelsOfReading r, f (Currently (snd r)))) rs"

definition writeAll :: "(string list \<times> float64) list \<Rightarrow> (string list \<times> float64) list \<Rightarrow> (string list \<times> float64) list" where
  "writeAll ws cs = foldl (\<lambda>cs w. AList.update (fst w) (snd w) cs) cs ws"

definition recordReadings :: "(string \<times> Forecast) list \<Rightarrow> (string \<times> GaugeVec) list \<Rightarrow> (string \<times> GaugeVec) list" where
  "recordReadings rs gs = foldl (\<lambda>gs r. updateGauges (fst r) (snd r) gs) gs rs"

definition recordField :: "(DataPoint \<Rightarrow> float64) \<Rightarrow> (string \<times> Forecast) list \<Rightarrow> GaugeVec \<Rightarrow> GaugeVec" where
  "recordField f rs gauge =
     foldl (\<lambda>g r. WithLabelValuesSet g (labelsOfReading r) (f (Currently (snd r)))) gauge rs"

section \<open>Example inputs\<close>

definition exampleDataPoint :: DataPoint where
  "exampleDataPoint =
     \<lparr>Temperature = Finite (123 / 10), ApparentTemperature = Finite 11, WindSpeed = Finite 4,
      CloudCover = Finite (3 / 4), Humidity = Finite (4 / 5), PrecipIntensity = Finite 0\<rparr>"

definition exampleForecast :: Forecast where
  "exampleForecast =
     \<lparr>Latitude = Finite (5335 / 100), Longitude = Finite (- 626 / 100), FlagsUnits = ''si'',
      Currently = exampleDataPoint\<rparr>"

definition exampleGeocodingResult :: GeocodingResult where
  "exampleGeocodingResult =
     \<lparr>AddressComponents = [\<lparr>LongName = ''Dublin''\<rparr>],
      GeometryLocationLat = Finite (5335 / 100), GeometryLocationLng = Finite (- 626 / 100)\<rparr>"

text \<open>An upstream that resolves every name to Dublin and answers every forecast request
  with the given reading.\<close>

definition upstreamAnswering :: "Forecast \<Rightarrow> Upstream" where
  "upstreamAnswering fc =
     \<lparr>NewClient = (\<lambda>key. None),
      Geocode = (\<lambda>h key address. Inr [exampleGeocodingResult]),
      ForecastGet = (\<lambda>h key la lo. Inr fc)\<rparr>"

definition exampleCollector :: WeatherCollector where
  "exampleCollector =
     NewWeatherCollector [''dublin''] (getDescs [''temperature'', ''bogus_field'']) ''k1'' ''k2''"

definition idle :: Runtime where
  "idle = \<lparr>calls = [], panicked = False\<rparr>"

definition exampleConfig :: Config where
  "exampleConfig =
     \<lparr>Locations = [''dublin''], Metrics = [''temperature'', ''bogus_field''],
      GoogleMapsAPIKey = ''k1'', DarkskyAPIKey = ''k2''\<rparr>"

text \<open>A reading decoded from an answer in which every member but \<open>name\<close> is 7.\<close>

definition readingWithout :: "string \<Rightarrow> Forecast" where
  "readingWithout name =
     \<lparr>Latitude = Finite (5335 / 100), Longitude = Finite (- 626 / 100), FlagsUnits = ''si'',
      Currently = decodeDataPoint ((\<lambda>n. Some (Finite 7))(name := None))\<rparr>"

text \<open>The example reading in another unit system, and processes whose gauges hold no sample yet.\<close>

definition usForecast :: Forecast where
  "usForecast = exampleForecast\<lparr>FlagsUnits := ''us''\<rparr>"

definition exampleGauges :: "(string \<times> GaugeVec) list" where
  "exampleGauges =
     [(''temperature'', NewGaugeVec ''weather_temperature'' ''Weather forecast - temperature'' metricLabels),
      (''bogus_field'', NewGaugeVec ''weather_bogus_field'' ''Weather forecast - bogus field'' metricLabels)]"

definition exampleGaugeProcess :: GaugeProcess where
  "exampleGaugeProcess = \<lparr>calls = [], panicked = False, gauges = exampleGauges\<rparr>"

definition exampleFixedProcess :: FixedProcess where
  "exampleFixedProcess =
     \<lparr>calls = [], panicked = False,
      weatherTemperatureGauge =
        NewGaugeVec ''weather_temperature'' ''Weather forecast - temperature'' metricLabels,
      weatherApparentTemperatureGauge =
        NewGaugeVec ''weather_apparent_temperature'' ''Weather forecast - apparent temperature''
          metricLabels\<rparr>"

text \<open>An upstream whose geocoder finds nothing for Atlantis.\<close>

definition atlantisConfig :: Config where
  "atlantisConfig =
     \<lparr>Locations = [''dublin'', ''atlantis''], Metrics = [''temperature''],
      GoogleMapsAPIKey = ''k1'', DarkskyAPIKey = ''k2''\<rparr>"

definition upstreamWithoutAtlantis :: Upstream where
  "upstreamWithoutAtlantis =
     \<lparr>NewClient = (\<lambda>key. None),
      Geocode = (\<lambda>h key address. if address = ''atlantis'' then Inr [] else Inr [exampleGeocodingResult]),
      ForecastGet = (\<lambda>h key la lo. Inr exampleForecast)\<rparr>"

definition atlantisGauges :: "(string \<times> GaugeVec) list" where
  "atlantisGauges =
     [(''temperature'',
       WithLabelValuesSet
         (NewGaugeVec ''weather_temperature'' ''Weather forecast - temperature'' metricLabels)
         [''atlantis'', ''31.000000'', ''-24.000000''] (Finite 19))]"

definition atlantisProcess :: GaugeProcess where
  "atlantisProcess = \<lparr>calls = [], panicked = False, gauges = atlantisGauges\<rparr>"

text \<open>An upstream whose geocoder resolves the name to a slightly different latitude after
  its first answer; the forecast service echoes the coordinates it was asked for, and
  reports another temperature the second time.\<close>

definition warmerForecast :: Forecast where
  "warmerForecast =
     \<lparr>Latitude = Finite (5336 / 100), Longitude = Finite (- 626 / 100), FlagsUnits = ''si'',
      Currently = exampleDataPoint\<lparr>Temperature := Finite 14\<rparr>\<rparr>"

definition upstreamDrifting :: Upstream where
  "upstreamDrifting =
     \<lparr>NewClient = (\<lambda>key. None),
      Geocode = (\<lambda>h key address.
        if h = [] then Inr [exampleGeocodingResult]
        else Inr [exampleGeocodingResult\<lparr>GeometryLocationLat := Finite (5336 / 100)\<rparr>]),
      ForecastGet = (\<lambda>h key la lo. if length h < 2 then Inr exampleForecast else Inr warmerForecast)\<rparr>"

text \<open>An upstream whose forecast service reports another temperature from its second
  answer on, for the same coordinates.\<close>

definition warmedForecast :: Forecast where
  "warmedForecast =
     \<lparr>Latitude = Finite (5335 / 100), Longitude = Finite (- 626 / 100), FlagsUnits = ''si'',
      Currently = exampleDataPoint\<lparr>Temperature := Finite 14, ApparentTemperature := Finite 13\<rparr>\<rparr>"

definition upstreamWarming :: Upstream where
  "upstreamWarming =
     \<lparr>NewClient = (\<lambda>key. None),
      Geocode = (\<lambda>h key address. Inr [exampleGeocodingResult]),
      ForecastGet = (\<lambda>h key la lo. if length h < 2 then Inr exampleForecast else Inr warmedForecast)\<rparr>"

definition dublinConfig :: Config where
  "dublinConfig =
     \<lparr>Locations = [''dublin''], Metrics = [''temperature''],
      GoogleMapsAPIKey = ''k1'', DarkskyAPIKey = ''k2''\<rparr>"

text \<open>A configuration with two locations.\<close>

definition citiesConfig :: Config where
  "citiesConfig =
     \<lparr>Locations = [''dublin'', ''napoli''], Metrics = [''temperature''],
      GoogleMapsAPIKey = ''k1'', DarkskyAPIKey = ''k2''\<rparr>"

definition temperatureDesc :: Desc where
  "temperatureDesc = NewDesc ''weather_temperature'' ''Weather forecast - temperature'' metricLabels"

definition dublinProcess :: GaugeProcess where
  "dublinProcess =
     \<lparr>calls = [], panicked = False,
      gauges = [(''temperature'',
        NewGaugeVec ''weather_temperature'' ''Weather forecast - temperature'' metricLabels)]\<rparr>"

text \<open>Hosts: one that decodes the given configuration and registers everything, one whose
  configuration file cannot be read, and one that refuses the \<open>k\<close>-th registration.\<close>

definition hostWith :: "Config \<Rightarrow> Host" where
  "hostWith config =
     \<lparr>ReadFile = (\<lambda>filepath. Inr ''{}''), Unmarshal = (\<lambda>data. Inr config),
      Register = (\<lambda>n. None)\<rparr>"

definition hostWithoutFile :: Host where
  "hostWithoutFile =
     \<lparr>ReadFile = (\<lambda>filepath. Inl (LibraryError ''no such file'')),
      Unmarshal = (\<lambda>data. Inr exampleConfig), Register = (\<lambda>n. None)\<rparr>"

definition hostRefusing :: "Config \<Rightarrow> nat \<Rightarrow> Host" where
  "hostRefusing config k =
     \<lparr>ReadFile = (\<lambda>filepath. Inr ''{}''), Unmarshal = (\<lambda>data. Inr config),
      Register = (\<lambda>n. if n = k then Some (LibraryError ''already registered'') else None)\<rparr>"

section \<open>Properties\<close>

subsection \<open>Evaluation\<close>

lemma decimal_small: "n < 10 \<Longrightarrow> decimal n = [digit n]"
  by simp

lemma decimal_large: "\<not> n < 10 \<Longrightarrow> decimal n = decimal (n div 10) @ [digit n]"
  by simp

declare decimal.simps [simp del]

declare Sprintf_f.simps [simp del]

lemmas format_simps =
  Sprintf_f.simps roundHalfEven_def Let_def fraction6_def digit_def decimal_small decimal_large

lemma example_strings:
  "Sprintf_f (Finite (5335 / 100)) = ''53.350000''"
  "Sprintf_f (Finite (- 626 / 100)) = ''-6.260000''"
  "Sprintf_f (Finite (5336 / 100)) = ''53.360000''"
  by (simp_all add: format_simps)

subsection \<open>The metric extractor\<close>

lemma getValueByFieldName_cases:
  "getValueByFieldName ''temperature'' dp = Inr (Temperature dp)"
  "getValueByFieldName ''apparent_temperature'' dp = Inr (ApparentTemperature dp)"
  "getValueByFieldName ''wind_speed'' dp = Inr (WindSpeed dp)"
  "getValueByFieldName ''cloud_cover'' dp = Inr (CloudCover dp)"
  "getValueByFieldName ''humidity'' dp = Inr (Humidity dp)"
  "getValueByFieldName ''precip_intensity'' dp = Inr (PrecipIntensity dp)"
  by (simp_all add: getValueByFieldName_def)

lemma getValueByFieldName_unsupported:
  "field \<notin> set supportedFields \<Longrightarrow> getValueByFieldName field dp = Inl (UnsupportedField field)"
  by (simp add: getValueByFieldName_def supportedFields_def)

lemma getValueByFieldName_supported:
  "field \<in> set supportedFields \<Longrightarrow> \<exists>val. getValueByFieldName field dp = Inr val"
  by (auto simp: getValueByFieldName_def supportedFields_def)

text \<open>
  C6. \<^verbatim>\<open>getValueByFieldName\<close> is a function of its two arguments alone (it reads and
  writes no state, and has a result for every input). For each of the six supported names
  it returns the field of that name of the data point, with no error; for every other
  name it returns the error "unsupported field" carrying the name.
\<close>

theorem getValueByFieldName_closed_enumeration:
  "getValueByFieldName ''temperature'' dp = Inr (Temperature dp) \<and>
   getValueByFieldName ''apparent_temperature'' dp = Inr (ApparentTemperature dp) \<and>
   getValueByFieldName ''wind_speed'' dp = Inr (WindSpeed dp) \<and>
   getValueByFieldName ''cloud_cover'' dp = Inr (CloudCover dp) \<and>
   getValueByFieldName ''humidity'' dp = Inr (Humidity dp) \<and>
   getValueByFieldName ''precip_intensity'' dp = Inr (PrecipIntensity dp) \<and>
   (field \<notin> {''temperature'', ''apparent_temperature'', ''wind_speed'', ''cloud_cover'',
              ''humidity'', ''precip_intensity''} \<longrightarrow>
      getValueByFieldName field dp = Inl (UnsupportedField field))"
  by (simp add: getValueByFieldName_def)

theorem getValueByFieldName_closed_enumeration_witness:
  "''bogus_field'' \<notin> {''temperature'', ''apparent_temperature'', ''wind_speed'', ''cloud_cover'',
      ''humidity'', ''precip_intensity''} \<and>
   getValueByFieldName ''bogus_field'' exampleDataPoint = Inl (UnsupportedField ''bogus_field'') \<and>
   getValueByFieldName ''temperature'' exampleDataPoint = Inr (Finite (123 / 10))"
  using getValueByFieldName_closed_enumeration [of exampleDataPoint "''bogus_field''"]
  by (simp add: exampleDataPoint_def)

lemma example_strings_reduced:
  "Sprintf_f (Finite (1067 / 20)) = ''53.350000''"
  "Sprintf_f (Finite (- (313 / 50))) = ''-6.260000''"
  "Sprintf_f (Finite (1334 / 25)) = ''53.360000''"
  by (simp_all add: format_simps)

subsection \<open>Fetching\<close>

lemma getWeather_reading:
  assumes "getLocation up k1 loc h = (Ok l, h1)"
    and "ForecastGet up h1 k2 (LatString l) (LngString l) = Inr fc"
  shows "getWeather up k1 k2 loc h =
     (if FlagsUnits fc \<noteq> SI then Err (UnitsNotSI (FlagsUnits fc)) else Ok fc,
      h1 @ [ForecastCall (LatString l) (LngString l)])"
  using assms by (simp add: getWeather_def)

lemma getLocation_extends: "\<exists>cs. snd (getLocation up k1 loc h) = h @ cs"
  by (simp add: getLocation_def Let_def split: option.splits sum.splits list.splits)

lemma getWeather_extends: "\<exists>cs. snd (getWeather up k1 k2 loc h) = h @ cs"
proof (cases "getLocation up k1 loc h")
  case (Pair r h1)
  from getLocation_extends [of up k1 loc h] Pair obtain cs where h1: "h1 = h @ cs" by auto
  show ?thesis
    using Pair h1 by (cases r) (simp_all add: getWeather_def Let_def split: sum.splits)
qed

lemma upstreamAnswering_sel:
  "NewClient (upstreamAnswering fc) = (\<lambda>key. None)"
  "Geocode (upstreamAnswering fc) = (\<lambda>h key address. Inr [exampleGeocodingResult])"
  "ForecastGet (upstreamAnswering fc) = (\<lambda>h key la lo. Inr fc)"
  by (simp_all add: upstreamAnswering_def)

lemma getLocation_example:
  "getLocation (upstreamAnswering fc) k1 loc h =
     (Ok \<lparr>Name = ''Dublin'', Lat = Finite (5335 / 100), Lng = Finite (- 626 / 100)\<rparr>, h @ [GeocodeCall loc])"
  by (simp add: getLocation_def upstreamAnswering_def exampleGeocodingResult_def)

lemma getWeather_example:
  "getWeather (upstreamAnswering fc) k1 k2 loc h =
     (if FlagsUnits fc \<noteq> SI then Err (UnitsNotSI (FlagsUnits fc)) else Ok fc,
      h @ [GeocodeCall loc, ForecastCall ''53.350000'' ''-6.260000''])"
  by (simp add: getWeather_def getLocation_example upstreamAnswering_sel
      LatString_def LngString_def example_strings_reduced)

subsection \<open>The collector's loops\<close>

lemma collectValues_member:
  "(key, desc) \<in> set ds \<Longrightarrow> getValueByFieldName key (Currently fc) = Inr val \<Longrightarrow>
   MustNewConstMetric desc val (sampleLabelValues loc fc) \<in> set (collectValues ds loc fc)"
  by (force simp: collectValues_def)

lemma CollectFrom_reading:
  "getWeather up (gmapsAPIKey wc) (darkskyAPIKey wc) loc (calls rt) = (Ok fc, h') \<Longrightarrow>
   fst (CollectFrom up wc (loc # locs) rt) =
     collectValues (descs wc) loc fc @ fst (CollectFrom up wc locs (rt\<lparr>calls := h'\<rparr>))"
  by (simp split: prod.splits)

subsection \<open>Absent fields\<close>

lemma wireName_simps:
  "wireName ''temperature'' = ''temperature''"
  "wireName ''apparent_temperature'' = ''apparentTemperature''"
  "wireName ''wind_speed'' = ''windSpeed''"
  "wireName ''cloud_cover'' = ''cloudCover''"
  "wireName ''humidity'' = ''humidity''"
  "wireName ''precip_intensity'' = ''precipIntensity''"
  by (simp_all add: wireName_def)

lemma decodeDataPoint_sel:
  "Temperature (decodeDataPoint js) = member js ''temperature''"
  "ApparentTemperature (decodeDataPoint js) = member js ''apparentTemperature''"
  "WindSpeed (decodeDataPoint js) = member js ''windSpeed''"
  "CloudCover (decodeDataPoint js) = member js ''cloudCover''"
  "Humidity (decodeDataPoint js) = member js ''humidity''"
  "PrecipIntensity (decodeDataPoint js) = member js ''precipIntensity''"
  by (simp_all add: decodeDataPoint_def)

lemma supported_reads_member:
  "field \<in> set supportedFields \<Longrightarrow>
   getValueByFieldName field (decodeDataPoint js) = Inr (member js (wireName field))"
  unfolding supportedFields_def
  by (auto simp: getValueByFieldName_cases wireName_simps decodeDataPoint_sel)

lemma getDescs_humidity:
  "getDescs [''humidity''] =
     [(''humidity'', NewDesc ''weather_humidity'' ''Weather forecast - humidity'' metricLabels)]"
  by (simp add: getDescs_def ReplaceUnderscores_def)

text \<open>
  C9. For a supported metric whose member is absent from the forecast answer, the decoded
  field is Go's zero value and \<^verbatim>\<open>getValueByFieldName\<close> returns 0 with no error, exactly
  as it does for an answer in which the member is present with value 0; \<^verbatim>\<open>Collect\<close> then
  sends a sample with value 0 for it.
\<close>

theorem absent_field_published_as_zero:
  assumes "field \<in> set supportedFields"
    and "js (wireName field) = None"
    and "getWeather up (gmapsAPIKey wc) (darkskyAPIKey wc) loc (calls rt) = (Ok fc, h')"
    and "Currently fc = decodeDataPoint js"
    and "(field, desc) \<in> set (descs wc)"
  shows "getValueByFieldName field (Currently fc) = Inr (Finite 0) \<and>
    getValueByFieldName field (decodeDataPoint (js(wireName field \<mapsto> Finite 0))) = Inr (Finite 0) \<and>
    MustNewConstMetric desc (Finite 0) (sampleLabelValues loc fc)
      \<in> set (fst (CollectFrom up wc (loc # locs) rt))"
proof -
  have a: "getValueByFieldName field (Currently fc) = Inr (Finite 0)"
    using assms(1,2,4) by (simp add: supported_reads_member member_def)
  have b: "getValueByFieldName field (decodeDataPoint (js(wireName field \<mapsto> Finite 0))) = Inr (Finite 0)"
    using assms(1) by (simp add: supported_reads_member member_def)
  from a assms(5)
  have "MustNewConstMetric desc (Finite 0) (sampleLabelValues loc fc) \<in> set (collectValues (descs wc) loc fc)"
    by (simp add: collectValues_member)
  with a b show ?thesis
    by (simp add: CollectFrom_reading [OF assms(3)] del: CollectFrom.simps)
qed

theorem absent_field_published_as_zero_witness:
  "''humidity'' \<in> set supportedFields \<and>
   ((\<lambda>n. Some (Finite 7))(''humidity'' := None)) (wireName ''humidity'') = None \<and>
   getWeather (upstreamAnswering (readingWithout ''humidity'')) ''k1'' ''k2'' ''dublin'' [] =
     (Ok (readingWithout ''humidity''),
      [GeocodeCall ''dublin'', ForecastCall ''53.350000'' ''-6.260000'']) \<and>
   getValueByFieldName ''humidity'' (Currently (readingWithout ''humidity'')) = Inr (Finite 0) \<and>
   MustNewConstMetric (NewDesc ''weather_humidity'' ''Weather forecast - humidity'' metricLabels)
       (Finite 0) [''dublin'', ''53.350000'', ''-6.260000'']
     \<in> set (fst (Collect (upstreamAnswering (readingWithout ''humidity''))
          (NewWeatherCollector [''dublin''] (getDescs [''humidity'']) ''k1'' ''k2'') idle))"
proof -
  let ?fc = "readingWithout ''humidity''"
  let ?wc = "NewWeatherCollector [''dublin''] (getDescs [''humidity'']) ''k1'' ''k2''"
  let ?d = "NewDesc ''weather_humidity'' ''Weather forecast - humidity'' metricLabels"
  have s: "''humidity'' \<in> set supportedFields" by (simp add: supportedFields_def)
  have j: "((\<lambda>n. Some (Finite 7))(''humidity'' := None)) (wireName ''humidity'') = None"
    by (simp add: wireName_simps)
  have w: "getWeather (upstreamAnswering ?fc) ''k1'' ''k2'' ''dublin'' [] =
     (Ok ?fc, [GeocodeCall ''dublin'', ForecastCall ''53.350000'' ''-6.260000''])"
    by (simp add: getWeather_example readingWithout_def SI_def)
  have keys: "gmapsAPIKey ?wc = ''k1''" "darkskyAPIKey ?wc = ''k2''" "calls idle = []"
    "locations ?wc = [''dublin'']"
    by (simp_all add: NewWeatherCollector_def idle_def)
  have c: "Currently ?fc = decodeDataPoint ((\<lambda>n. Some (Finite 7))(''humidity'' := None))"
    by (simp add: readingWithout_def)
  have d: "(''humidity'', ?d) \<in> set (descs ?wc)"
    by (simp add: NewWeatherCollector_def getDescs_humidity)
  have l: "sampleLabelValues ''dublin'' ?fc = [''dublin'', ''53.350000'', ''-6.260000'']"
    by (simp add: sampleLabelValues_def readingWithout_def example_strings_reduced)
  note t = absent_field_published_as_zero [of "''humidity''" _ "upstreamAnswering ?fc" ?wc
      "''dublin''" idle ?fc _ ?d "[]", OF s j _ c d, unfolded keys, OF w]
  from t have t1: "getValueByFieldName ''humidity'' (Currently ?fc) = Inr (Finite 0)" by blast
  from t have t3: "MustNewConstMetric ?d (Finite 0) [''dublin'', ''53.350000'', ''-6.260000'']
      \<in> set (fst (Collect (upstreamAnswering ?fc) ?wc idle))"
    unfolding l Collect_def keys by blast
  from s j w t1 t3 show ?thesis by blast
qed

subsection \<open>Unit validation\<close>

text \<open>
  C2. When the forecast reading fetched for a location carries a unit system other than
  SI, \<^verbatim>\<open>getWeather\<close> returns the error "units are not SI" and no reading. The iteration
  of the location then changes nothing but the trace of upstream calls: the background
  loops of the gauge-map revision and of \<^verbatim>\<open>main.go\<close> continue with unchanged gauges, and
  \<^verbatim>\<open>Collect\<close> sends no sample for the location.
\<close>

theorem units_mismatch_discards_reading:
  fixes st :: GaugeProcess and fx :: FixedProcess and rt :: Runtime
  assumes "getLocation up (GoogleMapsAPIKey config) loc h = (Ok l, h1)"
    and "ForecastGet up h1 (DarkskyAPIKey config) (LatString l) (LngString l) = Inr fc"
    and "FlagsUnits fc \<noteq> SI"
  shows "getWeather up (GoogleMapsAPIKey config) (DarkskyAPIKey config) loc h =
      (Err (UnitsNotSI (FlagsUnits fc)), h1 @ [ForecastCall (LatString l) (LngString l)]) \<and>
    fetchWeather_gauges up config (loc # locs) (st\<lparr>calls := h\<rparr>) =
      fetchWeather_gauges up config locs
        (st\<lparr>calls := h1 @ [ForecastCall (LatString l) (LngString l)]\<rparr>) \<and>
    gauges (fetchWeather_gauges up config [loc] (st\<lparr>calls := h\<rparr>)) = gauges st \<and>
    fetchWeather_fixed up config (loc # locs) (fx\<lparr>calls := h\<rparr>) =
      fetchWeather_fixed up config locs
        (fx\<lparr>calls := h1 @ [ForecastCall (LatString l) (LngString l)]\<rparr>) \<and>
    CollectFrom up
        (NewWeatherCollector ls ds (GoogleMapsAPIKey config) (DarkskyAPIKey config))
        (loc # locs) (rt\<lparr>calls := h\<rparr>) =
      CollectFrom up
        (NewWeatherCollector ls ds (GoogleMapsAPIKey config) (DarkskyAPIKey config))
        locs (rt\<lparr>calls := h1 @ [ForecastCall (LatString l) (LngString l)]\<rparr>) \<and>
    fst (CollectFrom up
        (NewWeatherCollector ls ds (GoogleMapsAPIKey config) (DarkskyAPIKey config))
        [loc] (rt\<lparr>calls := h\<rparr>)) = []"
proof -
  have w: "getWeather up (GoogleMapsAPIKey config) (DarkskyAPIKey config) loc h =
      (Err (UnitsNotSI (FlagsUnits fc)), h1 @ [ForecastCall (LatString l) (LngString l)])"
    using getWeather_reading [OF assms(1,2)] assms(3) by simp
  then show ?thesis
    by (simp add: NewWeatherCollector_def)
qed

theorem units_mismatch_discards_reading_witness:
  "getLocation (upstreamAnswering usForecast) ''k1'' ''dublin'' [] =
     (Ok \<lparr>Name = ''Dublin'', Lat = Finite (5335 / 100), Lng = Finite (- 626 / 100)\<rparr>, [GeocodeCall ''dublin'']) \<and>
   ForecastGet (upstreamAnswering usForecast) [GeocodeCall ''dublin''] ''k2''
     ''53.350000'' ''-6.260000'' = Inr usForecast \<and>
   FlagsUnits usForecast \<noteq> SI \<and>
   getWeather (upstreamAnswering usForecast) ''k1'' ''k2'' ''dublin'' [] =
     (Err (UnitsNotSI ''us''), [GeocodeCall ''dublin'', ForecastCall ''53.350000'' ''-6.260000'']) \<and>
   gauges (fetchWeather_gauges (upstreamAnswering usForecast) exampleConfig [''dublin'']
     exampleGaugeProcess) = exampleGauges \<and>
   fst (CollectFrom (upstreamAnswering usForecast) exampleCollector [''dublin''] idle) = []"
proof -
  let ?up = "upstreamAnswering usForecast"
  let ?l = "\<lparr>Name = ''Dublin'', Lat = Finite (5335 / 100), Lng = Finite (- 626 / 100)\<rparr>"
  have k: "GoogleMapsAPIKey exampleConfig = ''k1''" "DarkskyAPIKey exampleConfig = ''k2''"
    "FlagsUnits usForecast = ''us''"
    "LatString ?l = ''53.350000''" "LngString ?l = ''-6.260000''"
    "exampleGaugeProcess\<lparr>calls := []\<rparr> = exampleGaugeProcess"
    "idle\<lparr>calls := []\<rparr> = idle"
    "NewWeatherCollector [''dublin''] (getDescs [''temperature'', ''bogus_field'']) ''k1'' ''k2'' = exampleCollector"
    "gauges exampleGaugeProcess = exampleGauges"
    "[GeocodeCall ''dublin''] @ [ForecastCall ''53.350000'' ''-6.260000''] =
       [GeocodeCall ''dublin'', ForecastCall ''53.350000'' ''-6.260000'']"
    by (simp_all add: exampleConfig_def usForecast_def LatString_def LngString_def
        example_strings_reduced exampleGaugeProcess_def idle_def exampleCollector_def)
  have g: "getLocation ?up (GoogleMapsAPIKey exampleConfig) ''dublin'' [] = (Ok ?l, [GeocodeCall ''dublin''])"
    by (simp add: getLocation_example)
  have f: "ForecastGet ?up [GeocodeCall ''dublin''] (DarkskyAPIKey exampleConfig) (LatString ?l) (LngString ?l)
      = Inr usForecast"
    by (simp add: upstreamAnswering_sel)
  have u: "FlagsUnits usForecast \<noteq> SI"
    by (simp add: usForecast_def SI_def)
  note t = units_mismatch_discards_reading [OF g f u, where st = exampleGaugeProcess
      and locs = "[]" and ls = "[''dublin'']" and ds = "getDescs [''temperature'', ''bogus_field'']"
      and rt = idle, unfolded k]
  from t g [unfolded k] f [unfolded k] u show ?thesis
    by blast
qed

subsection \<open>Metrics of one location\<close>

lemma set_update_subset: "set (AList.update k v xs) \<subseteq> insert (k, v) (set xs)"
  by (induction xs) auto

lemma map_of_getDescsFrom:
  "map_of (getDescsFrom metrics ds) key =
     (if key \<in> set metrics then Some (metricDescFor key) else map_of ds key)"
  by (induction metrics arbitrary: ds) (auto simp: update_conv' metricDescFor_def)

lemma getDescsFrom_entries:
  "(key, desc) \<in> set (getDescsFrom metrics ds) \<Longrightarrow>
   (key, desc) \<in> set ds \<or> (key \<in> set metrics \<and> desc = metricDescFor key)"
proof (induction metrics arbitrary: ds)
  case Nil
  then show ?case by simp
next
  case (Cons m ms)
  from Cons.IH [OF Cons.prems [simplified]] set_update_subset [of m "metricDescFor m" ds]
  show ?case by (auto simp: metricDescFor_def)
qed

lemma getDescs_entries:
  "(key, desc) \<in> set (getDescs metrics) \<Longrightarrow> key \<in> set metrics \<and> desc = metricDescFor key"
  using getDescsFrom_entries [of key desc metrics "[]"] by (simp add: getDescs_def)

lemma getDescs_configured:
  "key \<in> set metrics \<Longrightarrow> (key, metricDescFor key) \<in> set (getDescs metrics)"
  by (rule map_of_SomeD) (simp add: getDescs_def map_of_getDescsFrom)

lemma collectValues_simps:
  "collectValues [] loc fc = []"
  "collectValues ((key, desc) # ds) loc fc =
     (case getValueByFieldName key (Currently fc) of
        Inl err \<Rightarrow> []
      | Inr val \<Rightarrow> [MustNewConstMetric desc val (sampleLabelValues loc fc)]) @
     collectValues ds loc fc"
  by (simp_all add: collectValues_def)

lemma collectValues_source:
  "m \<in> set (collectValues ds loc fc) \<Longrightarrow>
   \<exists>key desc val. (key, desc) \<in> set ds \<and> getValueByFieldName key (Currently fc) = Inr val \<and>
      m = MustNewConstMetric desc val (sampleLabelValues loc fc)"
proof (induction ds)
  case Nil
  then show ?case by (simp add: collectValues_simps)
next
  case (Cons a ds)
  obtain key desc where a: "a = (key, desc)" by (cases a)
  show ?case
  proof (cases "m \<in> set (collectValues ds loc fc)")
    case True
    with Cons.IH show ?thesis by auto
  next
    case False
    with Cons.prems a obtain val where "getValueByFieldName key (Currently fc) = Inr val"
      "m = MustNewConstMetric desc val (sampleLabelValues loc fc)"
      by (cases "getValueByFieldName key (Currently fc)") (auto simp: collectValues_simps)
    with a show ?thesis by auto
  qed
qed

lemma map_of_updateGauges:
  "map_of (updateGauges loc fc gs) key =
     map_option (\<lambda>gauge. case getValueByFieldName key (Currently fc) of
        Inl err \<Rightarrow> gauge
      | Inr val \<Rightarrow> WithLabelValuesSet gauge (sampleLabelValues loc fc) val) (map_of gs key)"
  by (induction gs) (auto simp: updateGauges_def split: sum.splits)

lemma keys_updateGauges: "map fst (updateGauges loc fc gs) = map fst gs"
  by (induction gs) (auto simp: updateGauges_def split: sum.splits)

lemma fetchWeather_gauges_reading:
  "getWeather up (GoogleMapsAPIKey config) (DarkskyAPIKey config) loc (calls st) = (Ok fc, h') \<Longrightarrow>
   fetchWeather_gauges up config (loc # locs) st =
     fetchWeather_gauges up config locs (st\<lparr>calls := h', gauges := updateGauges loc fc (gauges st)\<rparr>)"
  by simp

text \<open>
  C3. For a location with a reading, each configured metric is extracted on its own. When
  \<^verbatim>\<open>getValueByFieldName\<close> fails for one metric name, no sample is sent and no gauge is
  written for that name, and every other configured metric whose extraction succeeds is
  still sent by \<^verbatim>\<open>Collect\<close> (collector revision) and written to its gauge (gauge-map
  revision) in the same iteration.
\<close>

theorem unsupported_metric_skips_only_itself:
  fixes st :: GaugeProcess and rt :: Runtime
  assumes "getWeather up (GoogleMapsAPIKey config) (DarkskyAPIKey config) loc h = (Ok fc, h')"
    and "getValueByFieldName bad (Currently fc) = Inl err"
    and "getValueByFieldName key (Currently fc) = Inr val"
  shows "(key \<in> set (Metrics config) \<longrightarrow>
       MustNewConstMetric (metricDescFor key) val (sampleLabelValues loc fc)
         \<in> set (fst (CollectFrom up
              (NewWeatherCollector ls (getDescs (Metrics config))
                 (GoogleMapsAPIKey config) (DarkskyAPIKey config))
              (loc # locs) (rt\<lparr>calls := h\<rparr>)))) \<and>
    (\<forall>m \<in> set (collectValues (getDescs (Metrics config)) loc fc).
       metricDesc m \<noteq> metricDescFor bad) \<and>
    (\<forall>gauge. map_of (gauges st) key = Some gauge \<longrightarrow>
       map_of (gauges (fetchWeather_gauges up config [loc] (st\<lparr>calls := h\<rparr>))) key =
         Some (WithLabelValuesSet gauge (sampleLabelValues loc fc) val)) \<and>
    map_of (gauges (fetchWeather_gauges up config [loc] (st\<lparr>calls := h\<rparr>))) bad =
      map_of (gauges st) bad"
proof -
  let ?wc = "NewWeatherCollector ls (getDescs (Metrics config))
                 (GoogleMapsAPIKey config) (DarkskyAPIKey config)"
  have w: "getWeather up (gmapsAPIKey ?wc) (darkskyAPIKey ?wc) loc (calls (rt\<lparr>calls := h\<rparr>)) = (Ok fc, h')"
    using assms(1) by (simp add: NewWeatherCollector_def)
  have d: "descs ?wc = getDescs (Metrics config)"
    by (simp add: NewWeatherCollector_def)
  have 1: "key \<in> set (Metrics config) \<longrightarrow>
       MustNewConstMetric (metricDescFor key) val (sampleLabelValues loc fc)
         \<in> set (fst (CollectFrom up ?wc (loc # locs) (rt\<lparr>calls := h\<rparr>)))"
    unfolding CollectFrom_reading [OF w] d
    using assms(3) by (auto intro: collectValues_member getDescs_configured)
  have 2: "\<forall>m \<in> set (collectValues (getDescs (Metrics config)) loc fc).
       metricDesc m \<noteq> metricDescFor bad"
  proof
    fix m assume "m \<in> set (collectValues (getDescs (Metrics config)) loc fc)"
    then obtain k desc v where k: "(k, desc) \<in> set (getDescs (Metrics config))"
      "getValueByFieldName k (Currently fc) = Inr v"
      "m = MustNewConstMetric desc v (sampleLabelValues loc fc)"
      using collectValues_source by blast
    from k(2) assms(2) have "k \<noteq> bad" by auto
    with k(1,3) getDescs_entries [OF k(1)] show "metricDesc m \<noteq> metricDescFor bad"
      by (simp add: MustNewConstMetric_def metricDescFor_def NewDesc_def)
  qed
  have g: "gauges (fetchWeather_gauges up config [loc] (st\<lparr>calls := h\<rparr>)) =
      updateGauges loc fc (gauges st)"
    using assms(1) by simp
  have 3: "\<forall>gauge. map_of (gauges st) key = Some gauge \<longrightarrow>
       map_of (gauges (fetchWeather_gauges up config [loc] (st\<lparr>calls := h\<rparr>))) key =
         Some (WithLabelValuesSet gauge (sampleLabelValues loc fc) val)"
    unfolding g using assms(3) by (simp add: map_of_updateGauges)
  have 4: "map_of (gauges (fetchWeather_gauges up config [loc] (st\<lparr>calls := h\<rparr>))) bad =
      map_of (gauges st) bad"
    unfolding g using assms(2) by (simp add: map_of_updateGauges option.map_ident)
  from 1 2 3 4 show ?thesis by blast
qed


theorem unsupported_metric_skips_only_itself_witness:
  "getWeather (upstreamAnswering exampleForecast) (GoogleMapsAPIKey exampleConfig)
     (DarkskyAPIKey exampleConfig) ''dublin'' [] =
     (Ok exampleForecast, [GeocodeCall ''dublin'', ForecastCall ''53.350000'' ''-6.260000'']) \<and>
   getValueByFieldName ''bogus_field'' (Currently exampleForecast) =
     Inl (UnsupportedField ''bogus_field'') \<and>
   getValueByFieldName ''temperature'' (Currently exampleForecast) = Inr (Finite (123 / 10)) \<and>
   ''temperature'' \<in> set (Metrics exampleConfig) \<and>
   MustNewConstMetric (metricDescFor ''temperature'') (Finite (123 / 10))
       (sampleLabelValues ''dublin'' exampleForecast)
     \<in> set (fst (CollectFrom (upstreamAnswering exampleForecast)
          (NewWeatherCollector [''dublin''] (getDescs (Metrics exampleConfig))
             (GoogleMapsAPIKey exampleConfig) (DarkskyAPIKey exampleConfig))
          [''dublin''] (idle\<lparr>calls := []\<rparr>))) \<and>
   map_of (gauges exampleGaugeProcess) ''temperature'' =
     Some (NewGaugeVec ''weather_temperature'' ''Weather forecast - temperature'' metricLabels) \<and>
   map_of (gauges (fetchWeather_gauges (upstreamAnswering exampleForecast) exampleConfig
       [''dublin''] (exampleGaugeProcess\<lparr>calls := []\<rparr>))) ''temperature'' =
     Some (WithLabelValuesSet
       (NewGaugeVec ''weather_temperature'' ''Weather forecast - temperature'' metricLabels)
       (sampleLabelValues ''dublin'' exampleForecast) (Finite (123 / 10))) \<and>
   map_of (gauges (fetchWeather_gauges (upstreamAnswering exampleForecast) exampleConfig
       [''dublin''] (exampleGaugeProcess\<lparr>calls := []\<rparr>))) ''bogus_field'' =
     map_of (gauges exampleGaugeProcess) ''bogus_field''"
proof -
  have w: "getWeather (upstreamAnswering exampleForecast) (GoogleMapsAPIKey exampleConfig)
     (DarkskyAPIKey exampleConfig) ''dublin'' [] =
     (Ok exampleForecast, [GeocodeCall ''dublin'', ForecastCall ''53.350000'' ''-6.260000''])"
    by (simp add: getWeather_example exampleForecast_def SI_def)
  have b: "getValueByFieldName ''bogus_field'' (Currently exampleForecast) =
     Inl (UnsupportedField ''bogus_field'')"
    by (simp add: getValueByFieldName_def)
  have k: "getValueByFieldName ''temperature'' (Currently exampleForecast) = Inr (Finite (123 / 10))"
    by (simp add: getValueByFieldName_def exampleForecast_def exampleDataPoint_def)
  have m: "''temperature'' \<in> set (Metrics exampleConfig)"
    by (simp add: exampleConfig_def)
  have g: "map_of (gauges exampleGaugeProcess) ''temperature'' =
     Some (NewGaugeVec ''weather_temperature'' ''Weather forecast - temperature'' metricLabels)"
    by (simp add: exampleGaugeProcess_def exampleGauges_def)
  note t = unsupported_metric_skips_only_itself [OF w b k, where st = exampleGaugeProcess
      and rt = idle and ls = "[''dublin'']" and locs = "[]"]
  note t1 = t [THEN conjunct1, THEN mp, OF m]
  note t3 = t [THEN conjunct2, THEN conjunct2, THEN conjunct1, THEN spec, THEN mp, OF g]
  note t4 = t [THEN conjunct2, THEN conjunct2, THEN conjunct2]
  from w b k m t1 g t3 t4 show ?thesis by blast
qed

subsection \<open>Failed locations\<close>

lemma filter_update_other:
  "loc' \<noteq> loc \<Longrightarrow>
   filter (forLocation loc) (AList.update (loc' # ls) v xs) = filter (forLocation loc) xs"
  by (induction xs) (auto simp: forLocation_def)

lemma locationChildren_other:
  "loc' \<noteq> loc \<Longrightarrow>
   locationChildren loc (WithLabelValuesSet gauge (sampleLabelValues loc' fc) val) =
   locationChildren loc gauge"
  by (simp add: locationChildren_def WithLabelValuesSet_def sampleLabelValues_def
      filter_update_other)

lemma storedFor_updateGauges:
  "loc' \<noteq> loc \<Longrightarrow> storedFor loc (updateGauges loc' fc gs) = storedFor loc gs"
  by (induction gs)
    (auto simp: storedFor_def updateGauges_def locationChildren_other split: sum.splits)

lemma fetchWeather_gauges_frame:
  assumes "\<forall>h. \<exists>err h'. getWeather up (GoogleMapsAPIKey config) (DarkskyAPIKey config) loc h = (Err err, h')"
  shows "storedFor loc (gauges (fetchWeather_gauges up config locs st)) = storedFor loc (gauges st)"
proof (induction locs arbitrary: st)
  case Nil
  then show ?case by simp
next
  case (Cons loc' locs)
  obtain r h' where w: "getWeather up (GoogleMapsAPIKey config) (DarkskyAPIKey config) loc' (calls st) = (r, h')"
    by (cases "getWeather up (GoogleMapsAPIKey config) (DarkskyAPIKey config) loc' (calls st)")
  show ?case
  proof (cases r)
    case (Ok fc)
    from assms obtain err h'' where
      "getWeather up (GoogleMapsAPIKey config) (DarkskyAPIKey config) loc (calls st) = (Err err, h'')"
      by blast
    with w Ok have "loc' \<noteq> loc" by auto
    with w Ok Cons.IH [of "st\<lparr>calls := h', gauges := updateGauges loc' fc (gauges st)\<rparr>"]
    show ?thesis by (simp add: storedFor_updateGauges)
  next
    case (Err err)
    with w Cons.IH [of "st\<lparr>calls := h'\<rparr>"] show ?thesis by simp
  next
    case Panic
    with w show ?thesis by simp
  qed
qed

lemma refreshLoop_gauges_frame:
  assumes "\<forall>h. \<exists>err h'. getWeather up (GoogleMapsAPIKey config) (DarkskyAPIKey config) loc h = (Err err, h')"
  shows "storedFor loc (gauges (refreshLoop_gauges n up config st)) = storedFor loc (gauges st)"
  by (induction n arbitrary: st) (simp_all add: Let_def fetchWeather_gauges_frame [OF assms])

lemma fetchWeather_fixed_frame:
  assumes "\<forall>h. \<exists>err h'. getWeather up (GoogleMapsAPIKey config) (DarkskyAPIKey config) loc h = (Err err, h')"
  shows "locationChildren loc (weatherTemperatureGauge (fetchWeather_fixed up config locs st)) =
      locationChildren loc (weatherTemperatureGauge st) \<and>
    locationChildren loc (weatherApparentTemperatureGauge (fetchWeather_fixed up config locs st)) =
      locationChildren loc (weatherApparentTemperatureGauge st)"
proof (induction locs arbitrary: st)
  case Nil
  then show ?case by simp
next
  case (Cons loc' locs)
  obtain r h' where w: "getWeather up (GoogleMapsAPIKey config) (DarkskyAPIKey config) loc' (calls st) = (r, h')"
    by (cases "getWeather up (GoogleMapsAPIKey config) (DarkskyAPIKey config) loc' (calls st)")
  show ?case
  proof (cases r)
    case (Ok fc)
    from assms obtain err h'' where
      "getWeather up (GoogleMapsAPIKey config) (DarkskyAPIKey config) loc (calls st) = (Err err, h'')"
      by blast
    with w Ok have "loc' \<noteq> loc" by auto
    with w Ok Cons.IH show ?thesis by (simp add: locationChildren_other)
  next
    case (Err err)
    with w Cons.IH show ?thesis by simp
  next
    case Panic
    with w show ?thesis by simp
  qed
qed

lemma refreshLoop_fixed_frame:
  assumes "\<forall>h. \<exists>err h'. getWeather up (GoogleMapsAPIKey config) (DarkskyAPIKey config) loc h = (Err err, h')"
  shows "locationChildren loc (weatherTemperatureGauge (refreshLoop_fixed n up config st)) =
      locationChildren loc (weatherTemperatureGauge st) \<and>
    locationChildren loc (weatherApparentTemperatureGauge (refreshLoop_fixed n up config st)) =
      locationChildren loc (weatherApparentTemperatureGauge st)"
  by (induction n arbitrary: st) (simp_all add: Let_def fetchWeather_fixed_frame [OF assms])


lemma fetchWeather_gauges_pass_frame:
  "fetchFailsInPass up config loc locs (calls st) \<Longrightarrow>
   storedFor loc (gauges (fetchWeather_gauges up config locs st)) = storedFor loc (gauges st)"
proof (induction locs arbitrary: st)
  case Nil
  then show ?case by simp
next
  case (Cons loc' locs)
  obtain r h' where w: "getWeather up (GoogleMapsAPIKey config) (DarkskyAPIKey config) loc' (calls st) = (r, h')"
    by (cases "getWeather up (GoogleMapsAPIKey config) (DarkskyAPIKey config) loc' (calls st)")
  show ?case
  proof (cases r)
    case (Ok fc)
    with w Cons.prems have "loc' \<noteq> loc" "fetchFailsInPass up config loc locs h'" by auto
    with w Ok Cons.IH [of "st\<lparr>calls := h', gauges := updateGauges loc' fc (gauges st)\<rparr>"]
    show ?thesis by (simp add: storedFor_updateGauges)
  next
    case (Err err)
    with w Cons.prems Cons.IH [of "st\<lparr>calls := h'\<rparr>"] show ?thesis by simp
  next
    case Panic
    with w show ?thesis by simp
  qed
qed

lemma fetchWeather_fixed_pass_frame:
  "fetchFailsInPass up config loc locs (calls st) \<Longrightarrow>
   locationChildren loc (weatherTemperatureGauge (fetchWeather_fixed up config locs st)) =
      locationChildren loc (weatherTemperatureGauge st) \<and>
   locationChildren loc (weatherApparentTemperatureGauge (fetchWeather_fixed up config locs st)) =
      locationChildren loc (weatherApparentTemperatureGauge st)"
proof (induction locs arbitrary: st)
  case Nil
  then show ?case by simp
next
  case (Cons loc' locs)
  obtain r h' where w: "getWeather up (GoogleMapsAPIKey config) (DarkskyAPIKey config) loc' (calls st) = (r, h')"
    by (cases "getWeather up (GoogleMapsAPIKey config) (DarkskyAPIKey config) loc' (calls st)")
  show ?case
  proof (cases r)
    case (Ok fc)
    with w Cons.prems have "loc' \<noteq> loc" "fetchFailsInPass up config loc locs h'" by auto
    with w Ok Cons.IH show ?thesis by (simp add: locationChildren_other)
  next
    case (Err err)
    with w Cons.prems Cons.IH show ?thesis by simp
  next
    case Panic
    with w show ?thesis by simp
  qed
qed

lemma getWeather_atlantis:
  "getWeather upstreamWithoutAtlantis k1 k2 ''atlantis'' h =
     (Err (GMapsSearchFailed (NoLocationFound ''atlantis'')), h @ [GeocodeCall ''atlantis''])"
  by (simp add: getWeather_def getLocation_def upstreamWithoutAtlantis_def)

lemma getWeather_not_atlantis:
  "getWeather upstreamWithoutAtlantis k1 k2 ''dublin'' h =
     (Ok exampleForecast, h @ [GeocodeCall ''dublin'', ForecastCall ''53.350000'' ''-6.260000''])"
  by (simp add: getWeather_def getLocation_def upstreamWithoutAtlantis_def
      exampleGeocodingResult_def LatString_def LngString_def example_strings_reduced
      exampleForecast_def SI_def)

text \<open>
  C4. When \<^verbatim>\<open>getWeather\<close> fails for a location (resolution, fetch or unit validation),
  its iteration of the background loop changes nothing but the trace of calls. In a pass
  in which every fetch for the location fails, the entries stored under that location are
  the same after the pass as before it, in the gauge-map revision and in \<^verbatim>\<open>main.go\<close>;
  and as long as the location keeps failing they persist over any number of passes.
\<close>

theorem failed_location_keeps_stored_entries:
  fixes st :: GaugeProcess and fx :: FixedProcess
  shows "(getWeather up (GoogleMapsAPIKey config) (DarkskyAPIKey config) loc h = (Err err, h') \<longrightarrow>
      fetchWeather_gauges up config (loc # locs) (st\<lparr>calls := h\<rparr>) =
        fetchWeather_gauges up config locs (st\<lparr>calls := h'\<rparr>) \<and>
      fetchWeather_fixed up config (loc # locs) (fx\<lparr>calls := h\<rparr>) =
        fetchWeather_fixed up config locs (fx\<lparr>calls := h'\<rparr>)) \<and>
    (fetchFailsInPass up config loc locs (calls st) \<longrightarrow>
      storedFor loc (gauges (fetchWeather_gauges up config locs st)) = storedFor loc (gauges st)) \<and>
    (fetchFailsInPass up config loc locs (calls fx) \<longrightarrow>
      locationChildren loc (weatherTemperatureGauge (fetchWeather_fixed up config locs fx)) =
        locationChildren loc (weatherTemperatureGauge fx) \<and>
      locationChildren loc (weatherApparentTemperatureGauge (fetchWeather_fixed up config locs fx)) =
        locationChildren loc (weatherApparentTemperatureGauge fx)) \<and>
    ((\<forall>h. \<exists>err h'. getWeather up (GoogleMapsAPIKey config) (DarkskyAPIKey config) loc h = (Err err, h')) \<longrightarrow>
      storedFor loc (gauges (refreshLoop_gauges n up config st)) = storedFor loc (gauges st) \<and>
      locationChildren loc (weatherTemperatureGauge (refreshLoop_fixed n up config fx)) =
        locationChildren loc (weatherTemperatureGauge fx) \<and>
      locationChildren loc (weatherApparentTemperatureGauge (refreshLoop_fixed n up config fx)) =
        locationChildren loc (weatherApparentTemperatureGauge fx))"
proof (intro conjI impI)
  assume "getWeather up (GoogleMapsAPIKey config) (DarkskyAPIKey config) loc h = (Err err, h')"
  then show "fetchWeather_gauges up config (loc # locs) (st\<lparr>calls := h\<rparr>) =
        fetchWeather_gauges up config locs (st\<lparr>calls := h'\<rparr>)"
    and "fetchWeather_fixed up config (loc # locs) (fx\<lparr>calls := h\<rparr>) =
        fetchWeather_fixed up config locs (fx\<lparr>calls := h'\<rparr>)"
    by simp_all
next
  assume "fetchFailsInPass up config loc locs (calls st)"
  then show "storedFor loc (gauges (fetchWeather_gauges up config locs st)) = storedFor loc (gauges st)"
    by (rule fetchWeather_gauges_pass_frame)
next
  assume a: "fetchFailsInPass up config loc locs (calls fx)"
  from fetchWeather_fixed_pass_frame [OF a]
  show "locationChildren loc (weatherTemperatureGauge (fetchWeather_fixed up config locs fx)) =
        locationChildren loc (weatherTemperatureGauge fx)"
    and "locationChildren loc (weatherApparentTemperatureGauge (fetchWeather_fixed up config locs fx)) =
        locationChildren loc (weatherApparentTemperatureGauge fx)"
    by simp_all
next
  assume a: "\<forall>h. \<exists>err h'. getWeather up (GoogleMapsAPIKey config) (DarkskyAPIKey config) loc h = (Err err, h')"
  from refreshLoop_gauges_frame [OF a] refreshLoop_fixed_frame [OF a]
  show "storedFor loc (gauges (refreshLoop_gauges n up config st)) = storedFor loc (gauges st)"
    and "locationChildren loc (weatherTemperatureGauge (refreshLoop_fixed n up config fx)) =
        locationChildren loc (weatherTemperatureGauge fx)"
    and "locationChildren loc (weatherApparentTemperatureGauge (refreshLoop_fixed n up config fx)) =
        locationChildren loc (weatherApparentTemperatureGauge fx)"
    by simp_all
qed

theorem failed_location_keeps_stored_entries_witness:
  "getWeather upstreamWithoutAtlantis (GoogleMapsAPIKey atlantisConfig)
     (DarkskyAPIKey atlantisConfig) ''atlantis'' [] =
     (Err (GMapsSearchFailed (NoLocationFound ''atlantis'')), [GeocodeCall ''atlantis'']) \<and>
   fetchFailsInPass upstreamWithoutAtlantis atlantisConfig ''atlantis'' (Locations atlantisConfig)
     (calls atlantisProcess) \<and>
   (\<forall>h. \<exists>err h'. getWeather upstreamWithoutAtlantis (GoogleMapsAPIKey atlantisConfig)
     (DarkskyAPIKey atlantisConfig) ''atlantis'' h = (Err err, h')) \<and>
   storedFor ''atlantis'' (gauges atlantisProcess) =
     [(''temperature'', [([''atlantis'', ''31.000000'', ''-24.000000''], Finite 19)])] \<and>
   storedFor ''atlantis'' (gauges (fetchWeather_gauges upstreamWithoutAtlantis atlantisConfig
     (Locations atlantisConfig) atlantisProcess)) = storedFor ''atlantis'' (gauges atlantisProcess) \<and>
   storedFor ''atlantis'' (gauges (refreshLoop_gauges 3 upstreamWithoutAtlantis atlantisConfig
     atlantisProcess)) = storedFor ''atlantis'' (gauges atlantisProcess)"
proof -
  have a: "getWeather upstreamWithoutAtlantis (GoogleMapsAPIKey atlantisConfig)
     (DarkskyAPIKey atlantisConfig) ''atlantis'' [] =
     (Err (GMapsSearchFailed (NoLocationFound ''atlantis'')), [GeocodeCall ''atlantis''])"
    by (simp add: getWeather_atlantis)
  have b: "fetchFailsInPass upstreamWithoutAtlantis atlantisConfig ''atlantis''
     (Locations atlantisConfig) (calls atlantisProcess)"
    by (simp add: atlantisConfig_def getWeather_atlantis getWeather_not_atlantis)
  have c: "\<forall>h. \<exists>err h'. getWeather upstreamWithoutAtlantis (GoogleMapsAPIKey atlantisConfig)
     (DarkskyAPIKey atlantisConfig) ''atlantis'' h = (Err err, h')"
    by (simp add: getWeather_atlantis)
  have d: "storedFor ''atlantis'' (gauges atlantisProcess) =
     [(''temperature'', [([''atlantis'', ''31.000000'', ''-24.000000''], Finite 19)])]"
    by (simp add: storedFor_def atlantisProcess_def atlantisGauges_def locationChildren_def
        WithLabelValuesSet_def NewGaugeVec_def forLocation_def)
  note t = failed_location_keeps_stored_entries [where up = upstreamWithoutAtlantis
      and config = atlantisConfig and loc = "''atlantis''" and st = atlantisProcess
      and locs = "Locations atlantisConfig" and n = 3]
  note t2 = t [THEN conjunct2, THEN conjunct1, THEN mp, OF b]
  note t4 = t [THEN conjunct2, THEN conjunct2, THEN conjunct2, THEN mp, OF c, THEN conjunct1]
  from a b c d t2 t4 show ?thesis by blast
qed

subsection \<open>Consecutive passes\<close>

lemma getWeather_drifting:
  "getWeather upstreamDrifting k1 k2 loc h =
     (Ok (if h = [] then exampleForecast else warmerForecast),
      h @ [GeocodeCall loc,
           ForecastCall (if h = [] then ''53.350000'' else ''53.360000'') ''-6.260000''])"
  by (cases h)
    (simp_all add: getWeather_def getLocation_def upstreamDrifting_def
      exampleGeocodingResult_def LatString_def LngString_def example_strings_reduced
      exampleForecast_def warmerForecast_def SI_def)

lemma writeAll_simps:
  "writeAll [] cs = cs"
  "writeAll (w # ws) cs = writeAll ws (AList.update (fst w) (snd w) cs)"
  "writeAll (ws @ ws') cs = writeAll ws' (writeAll ws cs)"
  by (simp_all add: writeAll_def)

lemma map_of_writeAll:
  "map_of (writeAll ws cs) l = (case map_of (rev ws) l of Some v \<Rightarrow> Some v | None \<Rightarrow> map_of cs l)"
proof (induction ws arbitrary: cs)
  case Nil
  then show ?case by (simp add: writeAll_simps)
next
  case (Cons w ws)
  show ?case
    unfolding writeAll_simps(2) Cons.IH
    by (cases w) (simp add: update_conv' map_add_def split: option.splits)
qed

lemma distinct_writeAll:
  "distinct (map fst cs) \<Longrightarrow> distinct (map fst (writeAll ws cs))"
  by (induction ws arbitrary: cs) (simp_all add: writeAll_simps distinct_update)

lemma writesOf_simps:
  "writesOf key [] = []"
  "writesOf key (r # rs) =
     (case getValueByFieldName key (Currently (snd r)) of
        Inl err \<Rightarrow> [] | Inr val \<Rightarrow> [(labelsOfReading r, val)]) @ writesOf key rs"
  "writesOf key (rs @ rs') = writesOf key rs @ writesOf key rs'"
  by (simp_all add: writesOf_def)

lemma writesOf_labels: "fst ` set (writesOf key rs) \<subseteq> labelsOfReading ` set rs"
  by (induction rs) (auto simp: writesOf_simps split: sum.splits)

lemma recordReadings_simps:
  "recordReadings [] gs = gs"
  "recordReadings (r # rs) gs = recordReadings rs (updateGauges (fst r) (snd r) gs)"
  "recordReadings (rs @ rs') gs = recordReadings rs' (recordReadings rs gs)"
  by (simp_all add: recordReadings_def)

lemma recordField_simps:
  "recordField f [] g = g"
  "recordField f (r # rs) g = recordField f rs (WithLabelValuesSet g (labelsOfReading r) (f (Currently (snd r))))"
  "recordField f (rs @ rs') g = recordField f rs' (recordField f rs g)"
  by (simp_all add: recordField_def)

lemma recordReadings_entries:
  "recordReadings rs gs =
     map (\<lambda>(key, g). (key, g\<lparr>children := writeAll (writesOf key rs) (children g)\<rparr>)) gs"
proof (induction rs arbitrary: gs)
  case Nil
  show ?case
    by (induction gs) (auto simp: recordReadings_simps writesOf_simps writeAll_simps)
next
  case (Cons r rs)
  show ?case
    unfolding recordReadings_simps(2) Cons.IH updateGauges_def map_map
    by (rule map_cong [OF refl])
      (auto simp: writesOf_simps writeAll_simps WithLabelValuesSet_def labelsOfReading_def
        split: sum.splits)
qed

lemma recordField_children:
  "recordField f rs g = g\<lparr>children := writeAll (writesOfField f rs) (children g)\<rparr>"
proof (induction rs arbitrary: g)
  case Nil
  show ?case by (simp add: recordField_simps writesOfField_def writeAll_simps)
next
  case (Cons r rs)
  show ?case
    unfolding recordField_simps(2) Cons.IH
    by (simp add: writesOfField_def writeAll_simps WithLabelValuesSet_def)
qed

lemma fetchWeather_gauges_pass:
  "calls (fetchWeather_gauges up config locs st) = traceAfterPass up config locs (calls st) \<and>
   panicked (fetchWeather_gauges up config locs st) =
     (panicked st \<or> panicInPass up config locs (calls st)) \<and>
   gauges (fetchWeather_gauges up config locs st) =
     recordReadings (readingsInPass up config locs (calls st)) (gauges st)"
proof (induction locs arbitrary: st)
  case Nil
  show ?case by (simp add: recordReadings_simps)
next
  case (Cons loc locs)
  show ?case
  proof (cases "getWeather up (GoogleMapsAPIKey config) (DarkskyAPIKey config) loc (calls st)")
    case (Pair r h)
    show ?thesis
      by (cases r) (simp_all add: Pair Cons.IH recordReadings_simps)
  qed
qed

lemma fetchWeather_fixed_pass:
  "calls (fetchWeather_fixed up config locs st) = traceAfterPass up config locs (calls st) \<and>
   panicked (fetchWeather_fixed up config locs st) =
     (panicked st \<or> panicInPass up config locs (calls st)) \<and>
   weatherTemperatureGauge (fetchWeather_fixed up config locs st) =
     recordField Temperature (readingsInPass up config locs (calls st)) (weatherTemperatureGauge st) \<and>
   weatherApparentTemperatureGauge (fetchWeather_fixed up config locs st) =
     recordField ApparentTemperature (readingsInPass up config locs (calls st))
       (weatherApparentTemperatureGauge st)"
proof (induction locs arbitrary: st)
  case Nil
  show ?case by (simp add: recordField_simps)
next
  case (Cons loc locs)
  show ?case
  proof (cases "getWeather up (GoogleMapsAPIKey config) (DarkskyAPIKey config) loc (calls st)")
    case (Pair r h)
    show ?thesis
      by (cases r) (simp_all add: Pair Cons.IH recordField_simps labelsOfReading_def)
  qed
qed

lemma refreshLoop_gauges_passes:
  "\<not> panicked st \<Longrightarrow>
   gauges (refreshLoop_gauges n up config st) =
     recordReadings (readingsInPasses n up config (calls st)) (gauges st)"
proof (induction n arbitrary: st)
  case 0
  show ?case by (simp add: recordReadings_simps)
next
  case (Suc n)
  show ?case
  proof (cases "panicInPass up config (Locations config) (calls st)")
    case True
    then show ?thesis
      by (simp add: Let_def fetchWeather_gauges_pass)
  next
    case False
    with Suc.prems have "\<not> panicked (fetchWeather_gauges up config (Locations config) st)"
      by (simp add: fetchWeather_gauges_pass)
    from Suc.IH [OF this] this False show ?thesis
      by (simp add: Let_def fetchWeather_gauges_pass recordReadings_simps)
  qed
qed

lemma refreshLoop_fixed_passes:
  "\<not> panicked st \<Longrightarrow>
   weatherTemperatureGauge (refreshLoop_fixed n up config st) =
     recordField Temperature (readingsInPasses n up config (calls st)) (weatherTemperatureGauge st) \<and>
   weatherApparentTemperatureGauge (refreshLoop_fixed n up config st) =
     recordField ApparentTemperature (readingsInPasses n up config (calls st))
       (weatherApparentTemperatureGauge st)"
proof (induction n arbitrary: st)
  case 0
  show ?case by (simp add: recordField_simps)
next
  case (Suc n)
  show ?case
  proof (cases "panicInPass up config (Locations config) (calls st)")
    case True
    then show ?thesis
      by (simp add: Let_def fetchWeather_fixed_pass)
  next
    case False
    with Suc.prems have "\<not> panicked (fetchWeather_fixed up config (Locations config) st)"
      by (simp add: fetchWeather_fixed_pass)
    from Suc.IH [OF this] this False show ?thesis
      by (simp add: Let_def fetchWeather_fixed_pass recordField_simps)
  qed
qed

lemma written_last:
  assumes "ws = pre @ (l, v) # post" and "l \<notin> fst ` set post"
  shows "map_of (writeAll ws cs) l = Some v"
proof -
  from assms(2) have "map_of (rev post) l = None"
    by (simp add: map_of_eq_None_iff)
  then have "map_of (rev ws) l = Some v"
    unfolding assms(1) by (simp add: map_add_def)
  then show ?thesis
    by (simp add: map_of_writeAll)
qed

lemma gatherGaugeVec_labels:
  assumes "distinct (map fst (children g))" and "map_of (children g) l = Some v"
  shows "{m \<in> set (gatherGaugeVec g). labelValues m = l} = {MustNewConstMetric (gaugeDesc g) v l}"
proof -
  have 1: "v' = v" if "(l, v') \<in> set (children g)" for v'
    using map_of_is_SomeI [OF assms(1) that] assms(2) by simp
  have 2: "(l, v) \<in> set (children g)"
    using assms(2) by (rule map_of_SomeD)
  show ?thesis
  proof (intro equalityI subsetI)
    fix m
    assume "m \<in> {m \<in> set (gatherGaugeVec g). labelValues m = l}"
    then obtain l' v' where m: "(l', v') \<in> set (children g)"
      "m = MustNewConstMetric (gaugeDesc g) v' l'" "labelValues m = l"
      by (auto simp: gatherGaugeVec_def)
    from m(2,3) have "l' = l"
      by (simp add: MustNewConstMetric_def)
    with m(1) 1 have "v' = v"
      by blast
    with m(2) \<open>l' = l\<close> show "m \<in> {MustNewConstMetric (gaugeDesc g) v l}"
      by simp
  next
    fix m
    assume "m \<in> {MustNewConstMetric (gaugeDesc g) v l}"
    then have m: "m = MustNewConstMetric (gaugeDesc g) v l"
      by simp
    from 2 have "MustNewConstMetric (gaugeDesc g) v l \<in> set (gatherGaugeVec g)"
      by (force simp: gatherGaugeVec_def)
    then show "m \<in> {m \<in> set (gatherGaugeVec g). labelValues m = l}"
      unfolding m by (simp add: MustNewConstMetric_def)
  qed
qed

lemma writesOf_split:
  assumes "getValueByFieldName key (Currently fc) = Inr val"
  shows "writesOf key (pre @ (loc, fc) # post) =
    writesOf key pre @ (sampleLabelValues loc fc, val) # writesOf key post"
  by (simp add: writesOf_simps assms labelsOfReading_def)

lemma writesOfField_split:
  "writesOfField f (pre @ (loc, fc) # post) =
    writesOfField f pre @ (sampleLabelValues loc fc, f (Currently fc)) # writesOfField f post"
  by (simp add: writesOfField_def labelsOfReading_def)

lemma writesOfField_labels: "fst ` set (writesOfField f rs) = labelsOfReading ` set rs"
  by (force simp: writesOfField_def)

lemma getWeather_warming:
  "getWeather upstreamWarming k1 k2 loc h =
     (Ok (if h = [] then exampleForecast else warmedForecast),
      h @ [GeocodeCall loc, ForecastCall ''53.350000'' ''-6.260000''])"
  by (cases h)
    (simp_all add: getWeather_def getLocation_def upstreamWarming_def
      exampleGeocodingResult_def LatString_def LngString_def example_strings_reduced
      exampleForecast_def warmedForecast_def SI_def)

lemma readings_warming:
  "readingsInPasses (Suc (Suc 0)) upstreamWarming citiesConfig [] =
     [(''dublin'', exampleForecast), (''napoli'', warmedForecast)] @
     (''dublin'', warmedForecast) # [(''napoli'', warmedForecast)]"
  by (simp add: citiesConfig_def getWeather_warming)

lemma readings_drifting:
  "readingsInPasses (Suc (Suc 0)) upstreamDrifting citiesConfig [] =
     [] @ (''dublin'', exampleForecast) #
     [(''napoli'', warmerForecast), (''dublin'', warmerForecast), (''napoli'', warmerForecast)]"
  by (simp add: citiesConfig_def getWeather_drifting)

lemma example_labels:
  "sampleLabelValues loc exampleForecast = [loc, ''53.350000'', ''-6.260000'']"
  "sampleLabelValues loc warmedForecast = [loc, ''53.350000'', ''-6.260000'']"
  "sampleLabelValues loc warmerForecast = [loc, ''53.360000'', ''-6.260000'']"
  by (simp_all add: sampleLabelValues_def exampleForecast_def warmedForecast_def
      warmerForecast_def example_strings_reduced)

lemma labels_of_other_locations:
  "loc \<notin> fst ` set post \<Longrightarrow> sampleLabelValues loc fc \<notin> labelsOfReading ` set post"
  by (auto simp: labelsOfReading_def sampleLabelValues_def)

lemma signed_zero_strings:
  "Sprintf_f (Finite 0) = ''0.000000''"
  "Sprintf_f NegativeZero = ''-0.000000''"
  by (simp_all add: format_simps)

text \<open>
  C8, amended. In both refresh-loop revisions, for every configuration, starting state,
  number \<open>n\<close> of passes, location and metric: when \<open>(loc, fc)\<close> is one of the readings
  fetched in the \<open>n\<close> passes and no later reading has the same label values, then after the
  passes the gauge of the metric holds the value extracted from \<open>fc\<close> under the label values
  of the reading (the configured location, the formatted latitude and longitude of the
  forecast answer), a scrape exposes that sample, and the gauge has no other sample under
  these label values: a value stored under them before is replaced, not averaged or
  accumulated. The most recent reading of a location always qualifies, since the readings
  of other locations have other label values. So after two successful passes the second
  value is stored and exposed under the second reading's label values, and when both
  readings format to the same label values it has replaced the first. An earlier reading
  qualifies too when the later readings of its location format to other coordinates: its
  sample stays stored and exposed next to the later one. In \<^verbatim>\<open>main.go\<close> the two fixed
  gauges take the temperature and the apparent temperature of the reading.
\<close>

theorem reading_stays_until_overwritten:
  fixes st :: GaugeProcess and fx :: FixedProcess
  assumes "\<not> panicked st" and "calls st = h"
    and "\<not> panicked fx" and "calls fx = h"
    and "readingsInPasses n up config h = pre @ (loc, fc) # post"
    and "sampleLabelValues loc fc \<notin> labelsOfReading ` set post"
    and "(key, gauge) \<in> set (gauges st)"
    and "getValueByFieldName key (Currently fc) = Inr val"
    and "distinct (map fst (children gauge))"
    and "distinct (map fst (children (weatherTemperatureGauge fx)))"
    and "distinct (map fst (children (weatherApparentTemperatureGauge fx)))"
  shows
    "(\<exists>g'. (key, g') \<in> set (gauges (refreshLoop_gauges n up config st)) \<and>
        gaugeDesc g' = gaugeDesc gauge \<and>
        map_of (children g') (sampleLabelValues loc fc) = Some val \<and>
        {m \<in> set (gatherGaugeVec g'). labelValues m = sampleLabelValues loc fc} =
          {MustNewConstMetric (gaugeDesc gauge) val (sampleLabelValues loc fc)} \<and>
        MustNewConstMetric (gaugeDesc gauge) val (sampleLabelValues loc fc)
          \<in> fst (serveMetrics_gauges (refreshLoop_gauges n up config st))) \<and>
     map_of (children (weatherTemperatureGauge (refreshLoop_fixed n up config fx)))
       (sampleLabelValues loc fc) = Some (Temperature (Currently fc)) \<and>
     {m \<in> set (gatherGaugeVec (weatherTemperatureGauge (refreshLoop_fixed n up config fx))).
        labelValues m = sampleLabelValues loc fc} =
       {MustNewConstMetric (gaugeDesc (weatherTemperatureGauge fx)) (Temperature (Currently fc))
          (sampleLabelValues loc fc)} \<and>
     map_of (children (weatherApparentTemperatureGauge (refreshLoop_fixed n up config fx)))
       (sampleLabelValues loc fc) = Some (ApparentTemperature (Currently fc)) \<and>
     {m \<in> set (gatherGaugeVec (weatherApparentTemperatureGauge (refreshLoop_fixed n up config fx))).
        labelValues m = sampleLabelValues loc fc} =
       {MustNewConstMetric (gaugeDesc (weatherApparentTemperatureGauge fx))
          (ApparentTemperature (Currently fc)) (sampleLabelValues loc fc)} \<and>
     MustNewConstMetric (gaugeDesc (weatherTemperatureGauge fx)) (Temperature (Currently fc))
       (sampleLabelValues loc fc) \<in> fst (serveMetrics_fixed (refreshLoop_fixed n up config fx)) \<and>
     MustNewConstMetric (gaugeDesc (weatherApparentTemperatureGauge fx))
       (ApparentTemperature (Currently fc)) (sampleLabelValues loc fc)
       \<in> fst (serveMetrics_fixed (refreshLoop_fixed n up config fx))"
proof -
  let ?l = "sampleLabelValues loc fc"
  let ?rs = "pre @ (loc, fc) # post"
  have stored: "map_of (writeAll ws cs) ?l = Some v \<and>
      distinct (map fst (writeAll ws cs))"
    if "ws = ws1 @ (?l, v) # ws2" and "fst ` set ws2 \<subseteq> labelsOfReading ` set post"
      and "distinct (map fst cs)" for ws ws1 ws2 v and cs :: "(string list \<times> float64) list"
  proof -
    from that(2) assms(6) have "?l \<notin> fst ` set ws2"
      by blast
    with that(1) have "map_of (writeAll ws cs) ?l = Some v"
      by (rule written_last)
    with that(3) show ?thesis
      by (simp add: distinct_writeAll)
  qed
  have exposed: "map_of (children g') ?l = Some v \<and>
      {m \<in> set (gatherGaugeVec g'). labelValues m = ?l} = {MustNewConstMetric (gaugeDesc g) v ?l} \<and>
      MustNewConstMetric (gaugeDesc g) v ?l \<in> set (gatherGaugeVec g')"
    if "g' = g\<lparr>children := writeAll ws (children g)\<rparr>"
      and "ws = ws1 @ (?l, v) # ws2" and "fst ` set ws2 \<subseteq> labelsOfReading ` set post"
      and "distinct (map fst (children g))" for g g' ws ws1 ws2 v
  proof -
    from stored [OF that(2,3,4)] have s: "map_of (children g') ?l = Some v"
      and d: "distinct (map fst (children g'))"
      unfolding that(1) by simp_all
    have e: "gaugeDesc g' = gaugeDesc g"
      unfolding that(1) by simp
    from gatherGaugeVec_labels [OF d s]
    have u: "{m \<in> set (gatherGaugeVec g'). labelValues m = ?l} =
        {MustNewConstMetric (gaugeDesc g) v ?l}"
      unfolding e .
    then have "MustNewConstMetric (gaugeDesc g) v ?l \<in> set (gatherGaugeVec g')"
      by blast
    with s u show ?thesis
      by blast
  qed
  define g' where "g' = gauge\<lparr>children := writeAll (writesOf key ?rs) (children gauge)\<rparr>"
  have gs: "gauges (refreshLoop_gauges n up config st) = recordReadings ?rs (gauges st)"
    using refreshLoop_gauges_passes [OF assms(1), of n up config] assms(2,5) by simp
  have in': "(key, g') \<in> set (gauges (refreshLoop_gauges n up config st))"
    unfolding gs recordReadings_entries g'_def using assms(7) by force
  have eg: "map_of (children g') ?l = Some val \<and>
      {m \<in> set (gatherGaugeVec g'). labelValues m = ?l} =
        {MustNewConstMetric (gaugeDesc gauge) val ?l} \<and>
      MustNewConstMetric (gaugeDesc gauge) val ?l \<in> set (gatherGaugeVec g')"
    by (rule exposed [OF g'_def writesOf_split [OF assms(8)] writesOf_labels assms(9)])
  from in' eg have sg: "MustNewConstMetric (gaugeDesc gauge) val ?l
      \<in> fst (serveMetrics_gauges (refreshLoop_gauges n up config st))"
    by (force simp: serveMetrics_gauges_def)
  have dg: "gaugeDesc g' = gaugeDesc gauge"
    by (simp add: g'_def)
  have fx: "weatherTemperatureGauge (refreshLoop_fixed n up config fx) =
      (weatherTemperatureGauge fx)\<lparr>children :=
        writeAll (writesOfField Temperature ?rs) (children (weatherTemperatureGauge fx))\<rparr>"
    "weatherApparentTemperatureGauge (refreshLoop_fixed n up config fx) =
      (weatherApparentTemperatureGauge fx)\<lparr>children :=
        writeAll (writesOfField ApparentTemperature ?rs)
          (children (weatherApparentTemperatureGauge fx))\<rparr>"
    using refreshLoop_fixed_passes [OF assms(3), of n up config] assms(4,5)
    by (simp_all add: recordField_children)
  have wl: "fst ` set (writesOfField f post) \<subseteq> labelsOfReading ` set post" for f
    by (simp add: writesOfField_labels)
  have et: "map_of (children (weatherTemperatureGauge (refreshLoop_fixed n up config fx))) ?l =
        Some (Temperature (Currently fc)) \<and>
      {m \<in> set (gatherGaugeVec (weatherTemperatureGauge (refreshLoop_fixed n up config fx))).
         labelValues m = ?l} =
        {MustNewConstMetric (gaugeDesc (weatherTemperatureGauge fx)) (Temperature (Currently fc)) ?l} \<and>
      MustNewConstMetric (gaugeDesc (weatherTemperatureGauge fx)) (Temperature (Currently fc)) ?l
        \<in> set (gatherGaugeVec (weatherTemperatureGauge (refreshLoop_fixed n up config fx)))"
    by (rule exposed [OF fx(1) writesOfField_split wl assms(10)])
  have ea: "map_of (children (weatherApparentTemperatureGauge (refreshLoop_fixed n up config fx))) ?l =
        Some (ApparentTemperature (Currently fc)) \<and>
      {m \<in> set (gatherGaugeVec (weatherApparentTemperatureGauge (refreshLoop_fixed n up config fx))).
         labelValues m = ?l} =
        {MustNewConstMetric (gaugeDesc (weatherApparentTemperatureGauge fx))
           (ApparentTemperature (Currently fc)) ?l} \<and>
      MustNewConstMetric (gaugeDesc (weatherApparentTemperatureGauge fx))
        (ApparentTemperature (Currently fc)) ?l
        \<in> set (gatherGaugeVec (weatherApparentTemperatureGauge (refreshLoop_fixed n up config fx)))"
    by (rule exposed [OF fx(2) writesOfField_split wl assms(11)])
  have sf: "set (gatherGaugeVec (weatherTemperatureGauge (refreshLoop_fixed n up config fx)))
      \<subseteq> fst (serveMetrics_fixed (refreshLoop_fixed n up config fx))"
    "set (gatherGaugeVec (weatherApparentTemperatureGauge (refreshLoop_fixed n up config fx)))
      \<subseteq> fst (serveMetrics_fixed (refreshLoop_fixed n up config fx))"
    by (simp_all add: serveMetrics_fixed_def)
  from in' dg eg sg have 1: "\<exists>g'. (key, g') \<in> set (gauges (refreshLoop_gauges n up config st)) \<and>
        gaugeDesc g' = gaugeDesc gauge \<and>
        map_of (children g') ?l = Some val \<and>
        {m \<in> set (gatherGaugeVec g'). labelValues m = ?l} =
          {MustNewConstMetric (gaugeDesc gauge) val ?l} \<and>
        MustNewConstMetric (gaugeDesc gauge) val ?l
          \<in> fst (serveMetrics_gauges (refreshLoop_gauges n up config st))"
    by (intro exI [of _ g'] conjI) (rule in' dg sg | rule eg [THEN conjunct1] | rule eg [THEN conjunct2, THEN conjunct1])+
  from et sf(1) have 2: "MustNewConstMetric (gaugeDesc (weatherTemperatureGauge fx))
      (Temperature (Currently fc)) ?l \<in> fst (serveMetrics_fixed (refreshLoop_fixed n up config fx))"
    by blast
  from ea sf(2) have 3: "MustNewConstMetric (gaugeDesc (weatherApparentTemperatureGauge fx))
      (ApparentTemperature (Currently fc)) ?l
      \<in> fst (serveMetrics_fixed (refreshLoop_fixed n up config fx))"
    by blast
  show ?thesis
    by (intro conjI) (rule 1 2 3 | rule et [THEN conjunct1] | rule et [THEN conjunct2, THEN conjunct1]
      | rule ea [THEN conjunct1] | rule ea [THEN conjunct2, THEN conjunct1])+
qed

theorem reading_stays_until_overwritten_witness:
  "readingsInPasses (Suc (Suc 0)) upstreamWarming citiesConfig [] =
     [(''dublin'', exampleForecast), (''napoli'', warmedForecast)] @
     (''dublin'', warmedForecast) # [(''napoli'', warmedForecast)] \<and>
   MustNewConstMetric temperatureDesc (Finite 14) [''dublin'', ''53.350000'', ''-6.260000'']
     \<in> fst (serveMetrics_gauges (refreshLoop_gauges (Suc (Suc 0)) upstreamWarming citiesConfig dublinProcess)) \<and>
   {m \<in> set (gatherGaugeVec (weatherTemperatureGauge
        (refreshLoop_fixed (Suc (Suc 0)) upstreamWarming citiesConfig exampleFixedProcess))).
      labelValues m = [''dublin'', ''53.350000'', ''-6.260000'']} =
     {MustNewConstMetric temperatureDesc (Finite 14) [''dublin'', ''53.350000'', ''-6.260000'']} \<and>
   map_of (children (weatherApparentTemperatureGauge
        (refreshLoop_fixed (Suc (Suc 0)) upstreamWarming citiesConfig exampleFixedProcess)))
     [''dublin'', ''53.350000'', ''-6.260000''] = Some (Finite 13) \<and>
   readingsInPasses (Suc (Suc 0)) upstreamDrifting citiesConfig [] =
     [] @ (''dublin'', exampleForecast) #
     [(''napoli'', warmerForecast), (''dublin'', warmerForecast), (''napoli'', warmerForecast)] \<and>
   MustNewConstMetric temperatureDesc (Finite (123 / 10)) [''dublin'', ''53.350000'', ''-6.260000'']
     \<in> fst (serveMetrics_gauges (refreshLoop_gauges (Suc (Suc 0)) upstreamDrifting citiesConfig dublinProcess)) \<and>
   MustNewConstMetric temperatureDesc (Finite (123 / 10)) [''dublin'', ''53.350000'', ''-6.260000'']
     \<in> fst (serveMetrics_fixed (refreshLoop_fixed (Suc (Suc 0)) upstreamDrifting citiesConfig exampleFixedProcess))"
proof -
  let ?gauge = "NewGaugeVec ''weather_temperature'' ''Weather forecast - temperature'' metricLabels"
  have d: "gaugeDesc ?gauge = temperatureDesc"
    "gaugeDesc (weatherTemperatureGauge exampleFixedProcess) = temperatureDesc"
    by (simp_all add: NewGaugeVec_def temperatureDesc_def exampleFixedProcess_def)
  have v: "Temperature (Currently warmedForecast) = Finite 14"
    "ApparentTemperature (Currently warmedForecast) = Finite 13"
    "Temperature (Currently exampleForecast) = Finite (123 / 10)"
    by (simp_all add: warmedForecast_def exampleForecast_def exampleDataPoint_def)
  have g: "\<not> panicked dublinProcess" "calls dublinProcess = []"
    "(''temperature'', ?gauge) \<in> set (gauges dublinProcess)"
    "distinct (map fst (children ?gauge))"
    by (simp_all add: dublinProcess_def NewGaugeVec_def)
  have f: "\<not> panicked exampleFixedProcess" "calls exampleFixedProcess = []"
    "distinct (map fst (children (weatherTemperatureGauge exampleFixedProcess)))"
    "distinct (map fst (children (weatherApparentTemperatureGauge exampleFixedProcess)))"
    by (simp_all add: exampleFixedProcess_def NewGaugeVec_def)
  have e: "getValueByFieldName ''temperature'' (Currently warmedForecast) = Inr (Finite 14)"
    "getValueByFieldName ''temperature'' (Currently exampleForecast) = Inr (Finite (123 / 10))"
    by (simp_all add: getValueByFieldName_cases v)
  have l: "sampleLabelValues ''dublin'' warmedForecast
      \<notin> labelsOfReading ` set [(''napoli'', warmedForecast)]"
    "sampleLabelValues ''dublin'' exampleForecast
      \<notin> labelsOfReading ` set [(''napoli'', warmerForecast), (''dublin'', warmerForecast),
          (''napoli'', warmerForecast)]"
    by (rule labels_of_other_locations) (simp_all add: labelsOfReading_def example_labels)
  note a = reading_stays_until_overwritten
    [OF g(1,2) f(1,2) readings_warming l(1) g(3) e(1) g(4) f(3,4),
      unfolded d v example_labels]
  note b = reading_stays_until_overwritten
    [OF g(1,2) f(1,2) readings_drifting l(2) g(3) e(2) g(4) f(3,4),
      unfolded d v example_labels]
  have 1: "MustNewConstMetric temperatureDesc (Finite 14) [''dublin'', ''53.350000'', ''-6.260000'']
     \<in> fst (serveMetrics_gauges (refreshLoop_gauges (Suc (Suc 0)) upstreamWarming citiesConfig dublinProcess))"
    using a by (elim conjE exE)
  have 2: "{m \<in> set (gatherGaugeVec (weatherTemperatureGauge
        (refreshLoop_fixed (Suc (Suc 0)) upstreamWarming citiesConfig exampleFixedProcess))).
      labelValues m = [''dublin'', ''53.350000'', ''-6.260000'']} =
     {MustNewConstMetric temperatureDesc (Finite 14) [''dublin'', ''53.350000'', ''-6.260000'']}"
    using a by (elim conjE exE)
  have 3: "map_of (children (weatherApparentTemperatureGauge
        (refreshLoop_fixed (Suc (Suc 0)) upstreamWarming citiesConfig exampleFixedProcess)))
     [''dublin'', ''53.350000'', ''-6.260000''] = Some (Finite 13)"
    using a by (elim conjE exE)
  have 4: "MustNewConstMetric temperatureDesc (Finite (123 / 10)) [''dublin'', ''53.350000'', ''-6.260000'']
     \<in> fst (serveMetrics_gauges (refreshLoop_gauges (Suc (Suc 0)) upstreamDrifting citiesConfig dublinProcess))"
    using b by (elim conjE exE)
  have 5: "MustNewConstMetric temperatureDesc (Finite (123 / 10)) [''dublin'', ''53.350000'', ''-6.260000'']
     \<in> fst (serveMetrics_fixed (refreshLoop_fixed (Suc (Suc 0)) upstreamDrifting citiesConfig exampleFixedProcess))"
    using b by (elim conjE exE)
  show ?thesis
    by (intro conjI) (rule readings_warming readings_drifting 1 2 3 4 5)+
qed

text \<open>
  C8, as stated, fails: the store is keyed by the label values, which include the formatted
  coordinates of the forecast answer. When the second reading's coordinates differ from the
  first's, the first sample stays in the gauge and is exposed next to the second.
\<close>

theorem second_cycle_keeps_first_sample_counterexample:
  "fst (serveMetrics_gauges
     (refreshLoop_gauges (Suc (Suc 0)) upstreamDrifting dublinConfig dublinProcess)) =
   {MustNewConstMetric temperatureDesc (Finite (123 / 10)) [''dublin'', ''53.350000'', ''-6.260000''],
    MustNewConstMetric temperatureDesc (Finite 14) [''dublin'', ''53.360000'', ''-6.260000'']}"
  by (simp add: serveMetrics_gauges_def dublinConfig_def dublinProcess_def getWeather_drifting
      updateGauges_def getValueByFieldName_def WithLabelValuesSet_def NewGaugeVec_def
      sampleLabelValues_def exampleForecast_def warmerForecast_def exampleDataPoint_def
      example_strings_reduced gatherGaugeVec_def temperatureDesc_def Let_def)

subsection \<open>Names and labels of the samples\<close>

lemma isDigit_digit: "isDigit (digit d)"
proof -
  have "d mod 10 < length ''0123456789''" by simp
  then have "''0123456789'' ! (d mod 10) \<in> set ''0123456789''" by (rule nth_mem)
  then show ?thesis by (simp only: isDigit_def digit_def)
qed

lemma decimal_digits: "decimal n \<noteq> [] \<and> list_all isDigit (decimal n)"
proof (induction n rule: decimal.induct)
  case (1 n)
  show ?case
  proof (cases "n < 10")
    case True
    then show ?thesis by (simp add: decimal_small isDigit_digit)
  next
    case False
    with 1 show ?thesis by (simp add: decimal_large isDigit_digit)
  qed
qed

lemma fraction6_digits: "length (fraction6 m) = 6 \<and> list_all isDigit (fraction6 m)"
  by (simp add: fraction6_def isDigit_digit)

lemma not_minus_digit: "isDigit c \<Longrightarrow> c \<noteq> CHR ''-''"
  by (auto simp: isDigit_def)

lemma six_shape:
  assumes "length fr = 6" "list_all isDigit fr" "ip \<noteq> []" "list_all isDigit ip"
  shows "sixFractionalDigits (ip @ ''.'' @ fr)" and "sixFractionalDigits (''-'' @ ip @ ''.'' @ fr)"
proof -
  from assms(3) obtain c cs where ip: "ip = c # cs" by (cases ip) auto
  with assms(4) have c: "c \<noteq> CHR ''-''" by (simp add: not_minus_digit)
  have l: "length (ip @ ''.'' @ fr) - 7 = length ip" "length (ip @ ''.'' @ fr) - 6 = Suc (length ip)"
    using assms(1) by simp_all
  show "sixFractionalDigits (ip @ ''.'' @ fr)"
    unfolding sixFractionalDigits_def l Let_def
    using assms c ip by (simp add: nth_append)
  have l': "length (''-'' @ ip @ ''.'' @ fr) - 7 = Suc (length ip)"
    "length (''-'' @ ip @ ''.'' @ fr) - 6 = Suc (Suc (length ip))"
    using assms(1) by simp_all
  show "sixFractionalDigits (''-'' @ ip @ ''.'' @ fr)"
    unfolding sixFractionalDigits_def l' Let_def
    using assms by (simp add: nth_append)
qed

lemma Sprintf_f_six: "sixFractionalDigits (Sprintf_f x)"
proof (cases x)
  case (Finite r)
  let ?n = "nat (roundHalfEven (\<bar>r\<bar> * 1000000))"
  note d = decimal_digits [of "?n div 1000000"] and f = fraction6_digits [of "?n mod 1000000"]
  from six_shape [of "fraction6 (?n mod 1000000)" "decimal (?n div 1000000)"] d f
  show ?thesis
    unfolding Finite by (cases "r < 0") (simp_all add: Sprintf_f.simps Let_def)
next
  case NegativeZero
  then show ?thesis
    by (simp add: Sprintf_f.simps sixFractionalDigits_def isDigit_def)
qed


lemma getWeather_Ok_source:
  assumes "getWeather up k1 k2 loc h = (Ok fc, h')"
  shows "\<exists>l h1. getLocation up k1 loc h = (Ok l, h1) \<and>
    ForecastGet up h1 k2 (LatString l) (LngString l) = Inr fc \<and> FlagsUnits fc = SI \<and>
    h' = h1 @ [ForecastCall (LatString l) (LngString l)]"
proof (cases "getLocation up k1 loc h")
  case (Pair r h1)
  show ?thesis
  proof (cases r)
    case (Ok l)
    with Pair assms show ?thesis
      by (auto simp: getWeather_def Let_def split: sum.splits if_splits)
  next
    case (Err err)
    with Pair assms show ?thesis by (simp add: getWeather_def)
  next
    case Panic
    with Pair assms show ?thesis by (simp add: getWeather_def)
  qed
qed

lemma CollectFrom_source:
  "m \<in> set (fst (CollectFrom up wc locs rt)) \<Longrightarrow>
   \<exists>loc fc h h'. loc \<in> set locs \<and>
     getWeather up (gmapsAPIKey wc) (darkskyAPIKey wc) loc h = (Ok fc, h') \<and>
     m \<in> set (collectValues (descs wc) loc fc)"
proof (induction locs arbitrary: rt)
  case Nil
  then show ?case by simp
next
  case (Cons loc locs)
  obtain r h' where w: "getWeather up (gmapsAPIKey wc) (darkskyAPIKey wc) loc (calls rt) = (r, h')"
    by (cases "getWeather up (gmapsAPIKey wc) (darkskyAPIKey wc) loc (calls rt)")
  show ?case
  proof (cases r)
    case (Ok fc)
    with w Cons.prems
    have "m \<in> set (collectValues (descs wc) loc fc) \<or>
        m \<in> set (fst (CollectFrom up wc locs (rt\<lparr>calls := h'\<rparr>)))"
      by (auto split: prod.splits)
    then show ?thesis
    proof
      assume "m \<in> set (collectValues (descs wc) loc fc)"
      with w Ok show ?thesis by auto
    next
      assume "m \<in> set (fst (CollectFrom up wc locs (rt\<lparr>calls := h'\<rparr>)))"
      from Cons.IH [OF this] show ?thesis by auto
    qed
  next
    case (Err err)
    with w Cons.prems have "m \<in> set (fst (CollectFrom up wc locs (rt\<lparr>calls := h'\<rparr>)))"
      by simp
    from Cons.IH [OF this] show ?thesis by auto
  next
    case Panic
    with w Cons.prems show ?thesis by simp
  qed
qed

text \<open>
  C5, as stated, fails in one part: the \<^verbatim>\<open>location\<close> label is the location string of the
  configuration, not the display name the geocoder resolved it to (\<^verbatim>\<open>getWeather\<close> drops the
  resolved \<^verbatim>\<open>Location\<close>).
\<close>

theorem location_label_is_configured_name_counterexample:
  "fst (getLocation (upstreamAnswering exampleForecast) ''k1'' ''dublin'' []) =
     Ok \<lparr>Name = ''Dublin'', Lat = Finite (5335 / 100), Lng = Finite (- 626 / 100)\<rparr> \<and>
   map labelValues (fst (Collect (upstreamAnswering exampleForecast) exampleCollector idle)) =
     [[''dublin'', ''53.350000'', ''-6.260000'']] \<and>
   ''dublin'' \<noteq> ''Dublin''"
  by (simp add: getLocation_example Collect_def exampleCollector_def NewWeatherCollector_def
      idle_def getWeather_example exampleForecast_def SI_def getDescs_def collectValues_def
      getValueByFieldName_def MustNewConstMetric_def sampleLabelValues_def
      example_strings_reduced)

text \<open>
  C5, amended. Every sample \<^verbatim>\<open>Collect\<close> sends for a configured field name \<open>F\<close> is named
  \<open>weather_F\<close> and carries exactly the three labels \<^verbatim>\<open>location\<close>, \<^verbatim>\<open>latitude\<close>,
  \<^verbatim>\<open>longitude\<close>: the location as written in the configuration, and the latitude and
  longitude of the reading as decimal strings with six fractional digits.
\<close>

theorem published_sample_name_and_labels:
  assumes "m \<in> set (fst (Collect up (NewWeatherCollector locs (getDescs metrics) k1 k2) rt))"
  shows "\<exists>F loc fc h h'. F \<in> set metrics \<and> loc \<in> set locs \<and>
    getWeather up k1 k2 loc h = (Ok fc, h') \<and>
    fqName (metricDesc m) = ''weather_'' @ F \<and>
    variableLabels (metricDesc m) = [''location'', ''latitude'', ''longitude''] \<and>
    labelValues m = [loc, Sprintf_f (Latitude fc), Sprintf_f (Longitude fc)] \<and>
    sixFractionalDigits (Sprintf_f (Latitude fc)) \<and>
    sixFractionalDigits (Sprintf_f (Longitude fc)) \<and>
    getValueByFieldName F (Currently fc) = Inr (metricValue m)"
proof -
  let ?wc = "NewWeatherCollector locs (getDescs metrics) k1 k2"
  from assms have "m \<in> set (fst (CollectFrom up ?wc locs rt))"
    by (simp add: Collect_def NewWeatherCollector_def)
  from CollectFrom_source [OF this] obtain loc fc h h' where
    loc: "loc \<in> set locs" and w: "getWeather up k1 k2 loc h = (Ok fc, h')"
    and m: "m \<in> set (collectValues (getDescs metrics) loc fc)"
    by (auto simp: NewWeatherCollector_def)
  from collectValues_source [OF m] obtain F desc val where
    d: "(F, desc) \<in> set (getDescs metrics)" and v: "getValueByFieldName F (Currently fc) = Inr val"
    and m': "m = MustNewConstMetric desc val (sampleLabelValues loc fc)"
    by blast
  from getDescs_entries [OF d] have F: "F \<in> set metrics" and desc: "desc = metricDescFor F"
    by simp_all
  have "fqName (metricDesc m) = ''weather_'' @ F"
    "variableLabels (metricDesc m) = [''location'', ''latitude'', ''longitude'']"
    "labelValues m = [loc, Sprintf_f (Latitude fc), Sprintf_f (Longitude fc)]"
    "getValueByFieldName F (Currently fc) = Inr (metricValue m)"
    using v by (simp_all add: m' desc MustNewConstMetric_def metricDescFor_def NewDesc_def
        metricLabels_def sampleLabelValues_def)
  with F loc w Sprintf_f_six [of "Latitude fc"] Sprintf_f_six [of "Longitude fc"]
  show ?thesis by blast
qed


theorem published_sample_name_and_labels_witness:
  "MustNewConstMetric temperatureDesc (Finite (123 / 10)) [''dublin'', ''53.350000'', ''-6.260000'']
     \<in> set (fst (Collect (upstreamAnswering exampleForecast)
          (NewWeatherCollector [''dublin''] (getDescs [''temperature'', ''bogus_field''])
             ''k1'' ''k2'') idle)) \<and>
   (\<exists>F loc fc h h'. F \<in> set [''temperature'', ''bogus_field''] \<and> loc \<in> set [''dublin''] \<and>
      getWeather (upstreamAnswering exampleForecast) ''k1'' ''k2'' loc h = (Ok fc, h') \<and>
      fqName temperatureDesc = ''weather_'' @ F \<and>
      variableLabels temperatureDesc = [''location'', ''latitude'', ''longitude''] \<and>
      [''dublin'', ''53.350000'', ''-6.260000''] =
        [loc, Sprintf_f (Latitude fc), Sprintf_f (Longitude fc)] \<and>
      sixFractionalDigits (Sprintf_f (Latitude fc)) \<and>
      sixFractionalDigits (Sprintf_f (Longitude fc)) \<and>
      getValueByFieldName F (Currently fc) = Inr (Finite (123 / 10)))"
proof -
  let ?m = "MustNewConstMetric temperatureDesc (Finite (123 / 10)) [''dublin'', ''53.350000'', ''-6.260000'']"
  have a: "?m \<in> set (fst (Collect (upstreamAnswering exampleForecast)
          (NewWeatherCollector [''dublin''] (getDescs [''temperature'', ''bogus_field''])
             ''k1'' ''k2'') idle))"
    by (simp add: Collect_def NewWeatherCollector_def
      idle_def getWeather_example exampleForecast_def SI_def getDescs_def collectValues_def
      getValueByFieldName_def sampleLabelValues_def exampleDataPoint_def
      example_strings_reduced temperatureDesc_def ReplaceUnderscores_def)
  have k: "metricDesc ?m = temperatureDesc" "metricValue ?m = Finite (123 / 10)"
    "labelValues ?m = [''dublin'', ''53.350000'', ''-6.260000'']"
    by (simp_all add: MustNewConstMetric_def)
  from published_sample_name_and_labels [OF a, unfolded k] a show ?thesis by blast
qed

text \<open>
  C10. The forecast is requested with the formatted coordinates of the geocoder's answer,
  and the \<^verbatim>\<open>latitude\<close> and \<^verbatim>\<open>longitude\<close> label values of every sample of the location
  are the formatted coordinates of the forecast answer (\<^verbatim>\<open>fc.Latitude\<close>,
  \<^verbatim>\<open>fc.Longitude\<close>), in all three revisions. There are upstream answers for which the
  two differ.
\<close>

theorem labels_come_from_forecast_response:
  fixes st :: GaugeProcess and fx :: FixedProcess and rt :: Runtime
  assumes "getLocation up (GoogleMapsAPIKey config) loc h = (Ok l, h1)"
    and "ForecastGet up h1 (DarkskyAPIKey config) (LatString l) (LngString l) = Inr fc"
    and "FlagsUnits fc = SI"
  shows "getWeather up (GoogleMapsAPIKey config) (DarkskyAPIKey config) loc h =
      (Ok fc, h1 @ [ForecastCall (Sprintf_f (Lat l)) (Sprintf_f (Lng l))]) \<and>
    (\<forall>m \<in> set (fst (CollectFrom up
        (NewWeatherCollector ls ds (GoogleMapsAPIKey config) (DarkskyAPIKey config))
        [loc] (rt\<lparr>calls := h\<rparr>))).
       labelValues m = [loc, Sprintf_f (Latitude fc), Sprintf_f (Longitude fc)]) \<and>
    gauges (fetchWeather_gauges up config [loc] (st\<lparr>calls := h\<rparr>)) =
      map (\<lambda>(key, gauge).
        case getValueByFieldName key (Currently fc) of
          Inl err \<Rightarrow> (key, gauge)
        | Inr val \<Rightarrow>
            (key, WithLabelValuesSet gauge
               [loc, Sprintf_f (Latitude fc), Sprintf_f (Longitude fc)] val)) (gauges st) \<and>
    weatherTemperatureGauge (fetchWeather_fixed up config [loc] (fx\<lparr>calls := h\<rparr>)) =
      WithLabelValuesSet (weatherTemperatureGauge fx)
        [loc, Sprintf_f (Latitude fc), Sprintf_f (Longitude fc)] (Temperature (Currently fc)) \<and>
    weatherApparentTemperatureGauge (fetchWeather_fixed up config [loc] (fx\<lparr>calls := h\<rparr>)) =
      WithLabelValuesSet (weatherApparentTemperatureGauge fx)
        [loc, Sprintf_f (Latitude fc), Sprintf_f (Longitude fc)]
        (ApparentTemperature (Currently fc)) \<and>
    (\<exists>up' l' h' fc'. getLocation up' (GoogleMapsAPIKey config) loc h = (Ok l', h') \<and>
       ForecastGet up' h' (DarkskyAPIKey config) (LatString l') (LngString l') = Inr fc' \<and>
       FlagsUnits fc' = SI \<and> Sprintf_f (Latitude fc') \<noteq> Sprintf_f (Lat l'))"
proof -
  let ?wc = "NewWeatherCollector ls ds (GoogleMapsAPIKey config) (DarkskyAPIKey config)"
  have w: "getWeather up (GoogleMapsAPIKey config) (DarkskyAPIKey config) loc h =
      (Ok fc, h1 @ [ForecastCall (Sprintf_f (Lat l)) (Sprintf_f (Lng l))])"
    using getWeather_reading [OF assms(1,2)] assms(3) by (simp add: LatString_def LngString_def)
  have c: "\<forall>m \<in> set (fst (CollectFrom up ?wc [loc] (rt\<lparr>calls := h\<rparr>))).
       labelValues m = [loc, Sprintf_f (Latitude fc), Sprintf_f (Longitude fc)]"
  proof
    fix m assume "m \<in> set (fst (CollectFrom up ?wc [loc] (rt\<lparr>calls := h\<rparr>)))"
    with w have "m \<in> set (collectValues ds loc fc)"
      by (simp add: NewWeatherCollector_def)
    from collectValues_source [OF this]
    show "labelValues m = [loc, Sprintf_f (Latitude fc), Sprintf_f (Longitude fc)]"
      by (auto simp: MustNewConstMetric_def sampleLabelValues_def)
  qed
  have g0: "gauges (fetchWeather_gauges up config [loc] (st\<lparr>calls := h\<rparr>)) =
      updateGauges loc fc (gauges st)"
    using w by simp
  have g: "gauges (fetchWeather_gauges up config [loc] (st\<lparr>calls := h\<rparr>)) =
      map (\<lambda>(key, gauge).
        case getValueByFieldName key (Currently fc) of
          Inl err \<Rightarrow> (key, gauge)
        | Inr val \<Rightarrow>
            (key, WithLabelValuesSet gauge
               [loc, Sprintf_f (Latitude fc), Sprintf_f (Longitude fc)] val)) (gauges st)"
    unfolding g0 updateGauges_def sampleLabelValues_def by (rule refl)
  have f: "weatherTemperatureGauge (fetchWeather_fixed up config [loc] (fx\<lparr>calls := h\<rparr>)) =
      WithLabelValuesSet (weatherTemperatureGauge fx)
        [loc, Sprintf_f (Latitude fc), Sprintf_f (Longitude fc)] (Temperature (Currently fc))"
    "weatherApparentTemperatureGauge (fetchWeather_fixed up config [loc] (fx\<lparr>calls := h\<rparr>)) =
      WithLabelValuesSet (weatherApparentTemperatureGauge fx)
        [loc, Sprintf_f (Latitude fc), Sprintf_f (Longitude fc)]
        (ApparentTemperature (Currently fc))"
    using w by (simp_all add: sampleLabelValues_def)
  let ?l = "\<lparr>Name = ''Dublin'', Lat = Finite (5335 / 100), Lng = Finite (- 626 / 100)\<rparr>"
  have "getLocation (upstreamAnswering warmerForecast) (GoogleMapsAPIKey config) loc h =
      (Ok ?l, h @ [GeocodeCall loc])"
    by (rule getLocation_example)
  moreover have "ForecastGet (upstreamAnswering warmerForecast) (h @ [GeocodeCall loc])
      (DarkskyAPIKey config) (LatString ?l) (LngString ?l) = Inr warmerForecast"
    by (simp add: upstreamAnswering_sel)
  moreover have "FlagsUnits warmerForecast = SI"
    by (simp add: warmerForecast_def SI_def)
  moreover have "Sprintf_f (Latitude warmerForecast) \<noteq> Sprintf_f (Lat ?l)"
    by (simp add: warmerForecast_def example_strings_reduced)
  ultimately have e: "\<exists>up' l' h' fc'. getLocation up' (GoogleMapsAPIKey config) loc h = (Ok l', h') \<and>
       ForecastGet up' h' (DarkskyAPIKey config) (LatString l') (LngString l') = Inr fc' \<and>
       FlagsUnits fc' = SI \<and> Sprintf_f (Latitude fc') \<noteq> Sprintf_f (Lat l')"
    by blast
  from w c g f e show ?thesis by blast
qed


theorem labels_come_from_forecast_response_witness:
  "getLocation (upstreamAnswering warmerForecast) (GoogleMapsAPIKey dublinConfig) ''dublin'' [] =
     (Ok \<lparr>Name = ''Dublin'', Lat = Finite (5335 / 100), Lng = Finite (- 626 / 100)\<rparr>, [GeocodeCall ''dublin'']) \<and>
   ForecastGet (upstreamAnswering warmerForecast) [GeocodeCall ''dublin'']
     (DarkskyAPIKey dublinConfig)
     (LatString \<lparr>Name = ''Dublin'', Lat = Finite (5335 / 100), Lng = Finite (- 626 / 100)\<rparr>)
     (LngString \<lparr>Name = ''Dublin'', Lat = Finite (5335 / 100), Lng = Finite (- 626 / 100)\<rparr>) = Inr warmerForecast \<and>
   FlagsUnits warmerForecast = SI \<and>
   getWeather (upstreamAnswering warmerForecast) (GoogleMapsAPIKey dublinConfig)
     (DarkskyAPIKey dublinConfig) ''dublin'' [] =
     (Ok warmerForecast, [GeocodeCall ''dublin''] @ [ForecastCall ''53.350000'' ''-6.260000'']) \<and>
   weatherTemperatureGauge (fetchWeather_fixed (upstreamAnswering warmerForecast) dublinConfig
       [''dublin''] (exampleFixedProcess\<lparr>calls := []\<rparr>)) =
     WithLabelValuesSet (weatherTemperatureGauge exampleFixedProcess)
       [''dublin'', ''53.360000'', ''-6.260000''] (Finite 14)"
proof -
  let ?up = "upstreamAnswering warmerForecast"
  let ?l = "\<lparr>Name = ''Dublin'', Lat = Finite (5335 / 100), Lng = Finite (- 626 / 100)\<rparr>"
  have g: "getLocation ?up (GoogleMapsAPIKey dublinConfig) ''dublin'' [] = (Ok ?l, [GeocodeCall ''dublin''])"
    by (simp add: getLocation_example)
  have f: "ForecastGet ?up [GeocodeCall ''dublin''] (DarkskyAPIKey dublinConfig)
      (LatString ?l) (LngString ?l) = Inr warmerForecast"
    by (simp add: upstreamAnswering_sel)
  have u: "FlagsUnits warmerForecast = SI"
    by (simp add: warmerForecast_def SI_def)
  have k: "Sprintf_f (Lat ?l) = ''53.350000''" "Sprintf_f (Lng ?l) = ''-6.260000''"
    "Sprintf_f (Latitude warmerForecast) = ''53.360000''"
    "Sprintf_f (Longitude warmerForecast) = ''-6.260000''"
    "Temperature (Currently warmerForecast) = Finite 14"
    by (simp_all add: warmerForecast_def example_strings_reduced)
  note t = labels_come_from_forecast_response [OF g f u, where fx = exampleFixedProcess,
      unfolded k]
  from t g f u show ?thesis by blast
qed

subsection \<open>Scrapes\<close>

lemma getLocation_geocodes:
  "NewClient up k1 = None \<Longrightarrow> snd (getLocation up k1 loc h) = h @ [GeocodeCall loc]"
  by (simp add: getLocation_def Let_def split: sum.splits list.splits)

lemma getWeather_geocodes:
  assumes "NewClient up k1 = None"
  shows "\<exists>cs. snd (getWeather up k1 k2 loc h) = h @ GeocodeCall loc # cs"
proof (cases "getLocation up k1 loc h")
  case (Pair r h1)
  with getLocation_geocodes [OF assms, of loc h] have h1: "h1 = h @ [GeocodeCall loc]" by simp
  show ?thesis
    using Pair h1 by (cases r) (simp_all add: getWeather_def Let_def split: sum.splits)
qed

lemma snd_CollectFrom_step:
  "snd (CollectFrom up wc (loc # locs) rt) =
     (case getWeather up (gmapsAPIKey wc) (darkskyAPIKey wc) loc (calls rt) of
        (Panic, h') \<Rightarrow> rt\<lparr>calls := h', panicked := True\<rparr>
      | (Err err, h') \<Rightarrow> snd (CollectFrom up wc locs (rt\<lparr>calls := h'\<rparr>))
      | (Ok fc, h') \<Rightarrow> snd (CollectFrom up wc locs (rt\<lparr>calls := h'\<rparr>)))"
  by (simp split: prod.splits result.splits)

lemma CollectFrom_extends:
  "\<exists>cs. calls (snd (CollectFrom up wc locs rt)) = calls rt @ cs"
proof (induction locs arbitrary: rt)
  case Nil
  then show ?case by simp
next
  case (Cons loc locs)
  obtain r h' where w: "getWeather up (gmapsAPIKey wc) (darkskyAPIKey wc) loc (calls rt) = (r, h')"
    by (cases "getWeather up (gmapsAPIKey wc) (darkskyAPIKey wc) loc (calls rt)")
  from getWeather_extends [of up "gmapsAPIKey wc" "darkskyAPIKey wc" loc "calls rt"] w
  obtain cs0 where h': "h' = calls rt @ cs0" by auto
  from Cons.IH [of "rt\<lparr>calls := h'\<rparr>"] obtain cs where
    cs: "calls (snd (CollectFrom up wc locs (rt\<lparr>calls := h'\<rparr>))) = calls rt @ (cs0 @ cs)"
    unfolding h' by auto
  show ?case
  proof (cases r)
    case Panic
    have "calls (snd (CollectFrom up wc (loc # locs) rt)) = calls rt @ cs0"
      unfolding snd_CollectFrom_step w Panic by (simp add: h')
    then show ?thesis ..
  next
    case (Err err)
    have "calls (snd (CollectFrom up wc (loc # locs) rt)) = calls rt @ (cs0 @ cs)"
      unfolding snd_CollectFrom_step w Err using cs by simp
    then show ?thesis ..
  next
    case (Ok fc)
    have "calls (snd (CollectFrom up wc (loc # locs) rt)) = calls rt @ (cs0 @ cs)"
      unfolding snd_CollectFrom_step w Ok using cs by simp
    then show ?thesis ..
  qed
qed

lemma CollectFrom_nonempty:
  assumes "NewClient up (gmapsAPIKey wc) = None" and "locs \<noteq> []"
  shows "\<exists>cs. calls (snd (CollectFrom up wc locs rt)) = calls rt @ cs \<and> cs \<noteq> []"
proof -
  from assms(2) obtain loc locs' where locs: "locs = loc # locs'" by (cases locs) auto
  obtain r h' where w: "getWeather up (gmapsAPIKey wc) (darkskyAPIKey wc) loc (calls rt) = (r, h')"
    by (cases "getWeather up (gmapsAPIKey wc) (darkskyAPIKey wc) loc (calls rt)")
  from getWeather_geocodes [OF assms(1), of "darkskyAPIKey wc" loc "calls rt"] w
  obtain cs0 where h': "h' = calls rt @ GeocodeCall loc # cs0" by auto
  from CollectFrom_extends [of up wc locs' "rt\<lparr>calls := h'\<rparr>"] obtain cs where
    cs: "calls (snd (CollectFrom up wc locs' (rt\<lparr>calls := h'\<rparr>))) =
      calls rt @ (GeocodeCall loc # cs0 @ cs)"
    unfolding h' by auto
  have "calls (snd (CollectFrom up wc (loc # locs') rt)) = calls rt @ (GeocodeCall loc # cs0) \<or>
    calls (snd (CollectFrom up wc (loc # locs') rt)) = calls rt @ (GeocodeCall loc # cs0 @ cs)"
  proof (cases r)
    case Panic
    show ?thesis unfolding snd_CollectFrom_step w Panic by (simp add: h')
  next
    case (Err err)
    show ?thesis unfolding snd_CollectFrom_step w Err using cs by simp
  next
    case (Ok fc)
    show ?thesis unfolding snd_CollectFrom_step w Ok using cs by simp
  qed
  then show ?thesis unfolding locs by blast
qed

lemma CollectFrom_visits:
  assumes "NewClient up (gmapsAPIKey wc) = None"
  shows "loc \<in> set locs \<Longrightarrow> \<not> panicked (snd (CollectFrom up wc locs rt)) \<Longrightarrow>
    \<exists>cs. calls (snd (CollectFrom up wc locs rt)) = calls rt @ cs \<and> GeocodeCall loc \<in> set cs"
proof (induction locs arbitrary: rt)
  case Nil
  then show ?case by simp
next
  case (Cons loc' locs)
  obtain r h' where w: "getWeather up (gmapsAPIKey wc) (darkskyAPIKey wc) loc' (calls rt) = (r, h')"
    by (cases "getWeather up (gmapsAPIKey wc) (darkskyAPIKey wc) loc' (calls rt)")
  from getWeather_geocodes [OF assms, of "darkskyAPIKey wc" loc' "calls rt"] w
  obtain cs0 where h': "h' = calls rt @ GeocodeCall loc' # cs0" by auto
  have step: "snd (CollectFrom up wc (loc' # locs) rt) =
      snd (CollectFrom up wc locs (rt\<lparr>calls := h'\<rparr>))"
  proof (cases r)
    case Panic
    have "panicked (snd (CollectFrom up wc (loc' # locs) rt))"
      unfolding snd_CollectFrom_step w Panic by simp
    with Cons.prems(2) show ?thesis by simp
  next
    case (Err err)
    show ?thesis unfolding snd_CollectFrom_step w Err by simp
  next
    case (Ok fc)
    show ?thesis unfolding snd_CollectFrom_step w Ok by simp
  qed
  show ?case
  proof (cases "loc = loc'")
    case True
    from CollectFrom_extends [of up wc locs "rt\<lparr>calls := h'\<rparr>"] obtain cs where
      "calls (snd (CollectFrom up wc locs (rt\<lparr>calls := h'\<rparr>))) =
        calls rt @ (GeocodeCall loc' # cs0 @ cs)"
      unfolding h' by auto
    then have "calls (snd (CollectFrom up wc (loc' # locs) rt)) =
        calls rt @ (GeocodeCall loc' # cs0 @ cs) \<and>
      GeocodeCall loc \<in> set (GeocodeCall loc' # cs0 @ cs)"
      unfolding step True by simp
    then show ?thesis ..
  next
    case False
    with Cons.prems(1) have "loc \<in> set locs" by simp
    moreover from Cons.prems(2)
    have "\<not> panicked (snd (CollectFrom up wc locs (rt\<lparr>calls := h'\<rparr>)))"
      unfolding step .
    ultimately obtain cs where
      "calls (snd (CollectFrom up wc locs (rt\<lparr>calls := h'\<rparr>))) =
        calls rt @ (GeocodeCall loc' # cs0 @ cs)"
      "GeocodeCall loc \<in> set cs"
      using Cons.IH [of "rt\<lparr>calls := h'\<rparr>"] unfolding h' by auto
    then have "calls (snd (CollectFrom up wc (loc' # locs) rt)) =
        calls rt @ (GeocodeCall loc' # cs0 @ cs) \<and>
      GeocodeCall loc \<in> set (GeocodeCall loc' # cs0 @ cs)"
      unfolding step by simp
    then show ?thesis ..
  qed
qed

lemma CollectFrom_trace:
  "\<exists>cs. calls (snd (CollectFrom up wc locs rt)) = calls rt @ cs \<and>
     (NewClient up (gmapsAPIKey wc) = None \<longrightarrow>
        (locs \<noteq> [] \<longrightarrow> cs \<noteq> []) \<and>
        (\<not> panicked (snd (CollectFrom up wc locs rt)) \<longrightarrow>
           (\<forall>loc \<in> set locs. GeocodeCall loc \<in> set cs)))"
proof -
  from CollectFrom_extends [of up wc locs rt] obtain cs where
    cs: "calls (snd (CollectFrom up wc locs rt)) = calls rt @ cs" by blast
  have a: "cs \<noteq> []" if "NewClient up (gmapsAPIKey wc) = None" "locs \<noteq> []"
  proof -
    from CollectFrom_nonempty [OF that, of rt] obtain cs' where
      c': "calls (snd (CollectFrom up wc locs rt)) = calls rt @ cs'" "cs' \<noteq> []" by blast
    from c'(1) have "cs = cs'" unfolding cs by simp
    with c'(2) show ?thesis by simp
  qed
  have b: "GeocodeCall loc \<in> set cs"
    if "NewClient up (gmapsAPIKey wc) = None" "\<not> panicked (snd (CollectFrom up wc locs rt))"
      "loc \<in> set locs" for loc
  proof -
    from CollectFrom_visits [OF that(1,3,2)] obtain cs' where
      c': "calls (snd (CollectFrom up wc locs rt)) = calls rt @ cs'" "GeocodeCall loc \<in> set cs'"
      by blast
    from c'(1) have "cs = cs'" unfolding cs by simp
    with c'(2) show ?thesis by simp
  qed
  show ?thesis
  proof (intro exI [of _ cs] conjI impI ballI)
    show "calls (snd (CollectFrom up wc locs rt)) = calls rt @ cs" by (rule cs)
  next
    assume "NewClient up (gmapsAPIKey wc) = None" "locs \<noteq> []"
    then show "cs \<noteq> []" by (rule a)
  next
    fix loc
    assume "NewClient up (gmapsAPIKey wc) = None"
      "\<not> panicked (snd (CollectFrom up wc locs rt))" "loc \<in> set locs"
    then show "GeocodeCall loc \<in> set cs" by (rule b)
  qed
qed

lemma snd_serveMetrics_collector:
  "snd (serveMetrics_collector up wc rt) = snd (Collect up wc rt)"
  by (simp add: serveMetrics_collector_def split: prod.splits)

lemma Collect_example:
  "Collect (upstreamAnswering exampleForecast) exampleCollector idle =
     ([MustNewConstMetric temperatureDesc (Finite (123 / 10)) [''dublin'', ''53.350000'', ''-6.260000'']],
      \<lparr>calls = [GeocodeCall ''dublin'', ForecastCall ''53.350000'' ''-6.260000''],
         panicked = False\<rparr>)"
proof -
  have w: "getWeather (upstreamAnswering exampleForecast) ''k1'' ''k2'' ''dublin'' [] =
      (Ok exampleForecast, [GeocodeCall ''dublin'', ForecastCall ''53.350000'' ''-6.260000''])"
    by (simp add: getWeather_example exampleForecast_def SI_def)
  have v: "collectValues (getDescs [''temperature'', ''bogus_field'']) ''dublin'' exampleForecast =
      [MustNewConstMetric temperatureDesc (Finite (123 / 10)) [''dublin'', ''53.350000'', ''-6.260000'']]"
    by (simp add: getDescs_def collectValues_def getValueByFieldName_def sampleLabelValues_def
        exampleForecast_def exampleDataPoint_def example_strings_reduced temperatureDesc_def
        ReplaceUnderscores_def)
  show ?thesis
    by (simp add: Collect_def exampleCollector_def NewWeatherCollector_def idle_def w v)
qed

text \<open>
  C1, as stated, fails for the collector revision: there a scrape runs \<^verbatim>\<open>Collect\<close>, which
  calls \<^verbatim>\<open>getWeather\<close> (the geocoder, then the forecast service) for every configured
  location.
\<close>

theorem scrape_of_collector_contacts_upstream_counterexample:
  "calls idle = [] \<and>
   calls (snd (serveMetrics_collector (upstreamAnswering exampleForecast) exampleCollector idle)) =
     [GeocodeCall ''dublin'', ForecastCall ''53.350000'' ''-6.260000'']"
  by (simp add: snd_serveMetrics_collector Collect_example) (simp add: idle_def)

text \<open>
  C1, amended. In the two revisions with a background loop (\<^verbatim>\<open>main.go\<close> and the gauge-map
  revision) a scrape returns the samples stored in the gauges and leaves the process state,
  the trace of upstream calls included, as it was. In the collector revision a scrape
  extends the trace: with a usable geocoding client and at least one configured location
  it contacts the upstream, and unless a panic ends it, it geocodes every configured
  location.
\<close>

theorem scrape_contacts_upstream_only_in_collector:
  fixes st :: GaugeProcess and fx :: FixedProcess and rt :: Runtime
  shows "snd (serveMetrics_gauges st) = st \<and>
    fst (serveMetrics_gauges st) =
      set (concat (map (\<lambda>(key, gauge). gatherGaugeVec gauge) (gauges st))) \<and>
    snd (serveMetrics_fixed fx) = fx \<and>
    fst (serveMetrics_fixed fx) =
      set (gatherGaugeVec (weatherTemperatureGauge fx) @
           gatherGaugeVec (weatherApparentTemperatureGauge fx)) \<and>
    (\<exists>cs. calls (snd (serveMetrics_collector up wc rt)) = calls rt @ cs \<and>
       (NewClient up (gmapsAPIKey wc) = None \<longrightarrow>
          (locations wc \<noteq> [] \<longrightarrow> cs \<noteq> []) \<and>
          (\<not> panicked (snd (serveMetrics_collector up wc rt)) \<longrightarrow>
             (\<forall>loc \<in> set (locations wc). GeocodeCall loc \<in> set cs))))"
proof (intro conjI)
  show "snd (serveMetrics_gauges st) = st"
    and "fst (serveMetrics_gauges st) =
      set (concat (map (\<lambda>(key, gauge). gatherGaugeVec gauge) (gauges st)))"
    by (simp_all add: serveMetrics_gauges_def)
  show "snd (serveMetrics_fixed fx) = fx"
    and "fst (serveMetrics_fixed fx) =
      set (gatherGaugeVec (weatherTemperatureGauge fx) @
           gatherGaugeVec (weatherApparentTemperatureGauge fx))"
    by (simp_all add: serveMetrics_fixed_def)
  show "\<exists>cs. calls (snd (serveMetrics_collector up wc rt)) = calls rt @ cs \<and>
       (NewClient up (gmapsAPIKey wc) = None \<longrightarrow>
          (locations wc \<noteq> [] \<longrightarrow> cs \<noteq> []) \<and>
          (\<not> panicked (snd (serveMetrics_collector up wc rt)) \<longrightarrow>
             (\<forall>loc \<in> set (locations wc). GeocodeCall loc \<in> set cs)))"
    unfolding snd_serveMetrics_collector Collect_def by (rule CollectFrom_trace)
qed

theorem scrape_contacts_upstream_only_in_collector_witness:
  "NewClient (upstreamAnswering exampleForecast) (gmapsAPIKey exampleCollector) = None \<and>
   locations exampleCollector \<noteq> [] \<and> ''dublin'' \<in> set (locations exampleCollector) \<and>
   \<not> panicked (snd (serveMetrics_collector (upstreamAnswering exampleForecast) exampleCollector idle)) \<and>
   snd (serveMetrics_gauges exampleGaugeProcess) = exampleGaugeProcess \<and>
   (\<exists>cs. calls (snd (serveMetrics_collector (upstreamAnswering exampleForecast)
        exampleCollector idle)) = calls idle @ cs \<and>
      cs \<noteq> [] \<and> GeocodeCall ''dublin'' \<in> set cs)"
proof -
  let ?up = "upstreamAnswering exampleForecast"
  have n: "NewClient ?up (gmapsAPIKey exampleCollector) = None"
    by (simp add: upstreamAnswering_sel)
  have l: "locations exampleCollector \<noteq> []" "''dublin'' \<in> set (locations exampleCollector)"
    by (simp_all add: exampleCollector_def NewWeatherCollector_def)
  have p: "\<not> panicked (snd (serveMetrics_collector ?up exampleCollector idle))"
    by (simp add: snd_serveMetrics_collector Collect_example)
  note t = scrape_contacts_upstream_only_in_collector [of exampleGaugeProcess _ ?up
      exampleCollector idle]
  from t have t1: "snd (serveMetrics_gauges exampleGaugeProcess) = exampleGaugeProcess"
    by (rule conjunct1)
  from t obtain cs where
    c1: "calls (snd (serveMetrics_collector ?up exampleCollector idle)) = calls idle @ cs"
    and c2: "NewClient ?up (gmapsAPIKey exampleCollector) = None \<longrightarrow>
          (locations exampleCollector \<noteq> [] \<longrightarrow> cs \<noteq> []) \<and>
          (\<not> panicked (snd (serveMetrics_collector ?up exampleCollector idle)) \<longrightarrow>
             (\<forall>loc \<in> set (locations exampleCollector). GeocodeCall loc \<in> set cs))"
    by blast
  from c2 n l p have "cs \<noteq> []" "GeocodeCall ''dublin'' \<in> set cs" by blast+
  with c1 have t2: "\<exists>cs. calls (snd (serveMetrics_collector ?up exampleCollector idle)) =
      calls idle @ cs \<and> cs \<noteq> [] \<and> GeocodeCall ''dublin'' \<in> set cs"
    by blast
  from n l p t1 t2 show ?thesis by blast
qed

subsection \<open>Startup\<close>

lemma registerGauges_fails:
  "i < length keys \<Longrightarrow> Register host (n + i) = Some err \<Longrightarrow>
   \<exists>f. registerGauges host keys n gs = Inl f"
proof (induction keys arbitrary: n gs i)
  case Nil
  then show ?case by simp
next
  case (Cons key keys)
  show ?case
  proof (cases "Register host n")
    case (Some e)
    then show ?thesis by (simp add: Let_def)
  next
    case None
    with Cons.prems(2) have "i \<noteq> 0" by (cases i) auto
    then obtain j where i: "i = Suc j" by (cases i) auto
    with Cons.prems have "j < length keys" "Register host (Suc n + j) = Some err" by simp_all
    from Cons.IH [OF this] None show ?thesis by (simp add: Let_def)
  qed
qed

lemma LoadConfig_examples:
  "LoadConfig hostWithoutFile path = Inl (FailedToReadConfigFile (LibraryError ''no such file''))"
  "LoadConfig (hostWith config) path = Inr config"
  "LoadConfig (hostRefusing config k) path = Inr config"
  by (simp_all add: LoadConfig_def hostWithoutFile_def hostWith_def hostRefusing_def)

lemma Register_examples:
  "Register (hostRefusing config 0) 0 = Some (LibraryError ''already registered'')"
  "Register (hostRefusing config 1) 0 = None"
  "Register (hostRefusing config 1) 1 = Some (LibraryError ''already registered'')"
  by (simp_all add: hostRefusing_def)

text \<open>
  C7, as stated, fails for \<^verbatim>\<open>main.go\<close>: that revision has no metric list and does not check
  the location list, so with an empty location list it registers its two gauges and starts
  the server.
\<close>

theorem empty_location_list_starts_fixed_server_counterexample:
  "Locations (exampleConfig\<lparr>Locations := []\<rparr>) = [] \<and>
   main_fixed (hostWith (exampleConfig\<lparr>Locations := []\<rparr>)) ''config.json'' =
     Serving (exampleConfig\<lparr>Locations := []\<rparr>, exampleFixedProcess)"
  by (simp add: main_fixed_def LoadConfig_def hostWith_def exampleFixedProcess_def)

text \<open>
  C7, amended. In all three revisions a failure to read or decode the configuration file
  and a failed metric registration end \<^verbatim>\<open>main\<close> fatally, before the server is started (in
  the collector revision the registration runs \<^verbatim>\<open>Collect\<close> first, where a panic ends the
  process instead). In the collector and gauge-map revisions an empty location list and an
  empty metric list are fatal as well.
\<close>

theorem startup_failures_are_fatal:
  "(LoadConfig host path = Inl err \<longrightarrow>
      main_fixed host path = Fatal (FailedToLoadConfigurationFile path err) \<and>
      main_collector host up path = Fatal (FailedToLoadConfigurationFile path err) \<and>
      main_gauges host path = Fatal (FailedToLoadConfigurationFile path err)) \<and>
   (LoadConfig host path = Inr config \<and> Locations config = [] \<longrightarrow>
      main_collector host up path = Fatal MustSpecifyAtLeastOneLocation \<and>
      main_gauges host path = Fatal MustSpecifyAtLeastOneLocation) \<and>
   (LoadConfig host path = Inr config \<and> Locations config \<noteq> [] \<and> Metrics config = [] \<longrightarrow>
      main_collector host up path = Fatal MustSpecifyAtLeastOneMetric \<and>
      main_gauges host path = Fatal MustSpecifyAtLeastOneMetric) \<and>
   (LoadConfig host path = Inr config \<and> Register host 0 = Some err \<longrightarrow>
      main_fixed host path = Fatal (FailedToRegister ''temperature'' err)) \<and>
   (LoadConfig host path = Inr config \<and> Register host 0 = None \<and> Register host 1 = Some err \<longrightarrow>
      main_fixed host path = Fatal (FailedToRegister ''temperature'' err)) \<and>
   (LoadConfig host path = Inr config \<and> i < length (Metrics config) \<and>
      Register host i = Some err \<longrightarrow>
      (\<exists>f. main_gauges host path = Fatal f)) \<and>
   (LoadConfig host path = Inr config \<and> Locations config \<noteq> [] \<and> Metrics config \<noteq> [] \<and>
      Register host 0 = Some err \<longrightarrow>
      main_collector host up path = Fatal (FailedToRegister ''collector'' err) \<or>
      main_collector host up path = Crashed)"
proof (intro conjI impI)
  assume "LoadConfig host path = Inl err"
  then show "main_fixed host path = Fatal (FailedToLoadConfigurationFile path err)"
    and "main_collector host up path = Fatal (FailedToLoadConfigurationFile path err)"
    and "main_gauges host path = Fatal (FailedToLoadConfigurationFile path err)"
    by (simp_all add: main_fixed_def main_collector_def main_gauges_def)
next
  assume "LoadConfig host path = Inr config \<and> Locations config = []"
  then show "main_collector host up path = Fatal MustSpecifyAtLeastOneLocation"
    and "main_gauges host path = Fatal MustSpecifyAtLeastOneLocation"
    by (simp_all add: main_collector_def main_gauges_def)
next
  assume "LoadConfig host path = Inr config \<and> Locations config \<noteq> [] \<and> Metrics config = []"
  then show "main_collector host up path = Fatal MustSpecifyAtLeastOneMetric"
    and "main_gauges host path = Fatal MustSpecifyAtLeastOneMetric"
    by (simp_all add: main_collector_def main_gauges_def)
next
  assume "LoadConfig host path = Inr config \<and> Register host 0 = Some err"
  then show "main_fixed host path = Fatal (FailedToRegister ''temperature'' err)"
    by (simp add: main_fixed_def Let_def)
next
  assume "LoadConfig host path = Inr config \<and> Register host 0 = None \<and> Register host 1 = Some err"
  then show "main_fixed host path = Fatal (FailedToRegister ''temperature'' err)"
    by (simp add: main_fixed_def Let_def)
next
  assume a: "LoadConfig host path = Inr config \<and> i < length (Metrics config) \<and>
      Register host i = Some err"
  then have "\<exists>f. registerGauges host (Metrics config) 0 [] = Inl f"
    using registerGauges_fails [of i "Metrics config" host 0 err "[]"] by simp
  then obtain f where "registerGauges host (Metrics config) 0 [] = Inl f" ..
  with a show "\<exists>f. main_gauges host path = Fatal f"
    by (simp add: main_gauges_def)
next
  assume a: "LoadConfig host path = Inr config \<and> Locations config \<noteq> [] \<and> Metrics config \<noteq> [] \<and>
      Register host 0 = Some err"
  then show "main_collector host up path = Fatal (FailedToRegister ''collector'' err) \<or>
      main_collector host up path = Crashed"
    by (simp add: main_collector_def Let_def split: prod.splits)
qed

theorem startup_failures_are_fatal_witness:
  "LoadConfig hostWithoutFile ''config.json'' =
     Inl (FailedToReadConfigFile (LibraryError ''no such file'')) \<and>
   main_gauges hostWithoutFile ''config.json'' =
     Fatal (FailedToLoadConfigurationFile ''config.json''
       (FailedToReadConfigFile (LibraryError ''no such file''))) \<and>
   LoadConfig (hostWith (exampleConfig\<lparr>Locations := []\<rparr>)) ''config.json'' =
     Inr (exampleConfig\<lparr>Locations := []\<rparr>) \<and>
   Locations (exampleConfig\<lparr>Locations := []\<rparr>) = [] \<and>
   main_gauges (hostWith (exampleConfig\<lparr>Locations := []\<rparr>)) ''config.json'' =
     Fatal MustSpecifyAtLeastOneLocation \<and>
   LoadConfig (hostWith (exampleConfig\<lparr>Metrics := []\<rparr>)) ''config.json'' =
     Inr (exampleConfig\<lparr>Metrics := []\<rparr>) \<and>
   Locations (exampleConfig\<lparr>Metrics := []\<rparr>) \<noteq> [] \<and>
   Metrics (exampleConfig\<lparr>Metrics := []\<rparr>) = [] \<and>
   main_collector (hostWith (exampleConfig\<lparr>Metrics := []\<rparr>))
     (upstreamAnswering exampleForecast) ''config.json'' = Fatal MustSpecifyAtLeastOneMetric \<and>
   LoadConfig (hostRefusing exampleConfig 0) ''config.json'' = Inr exampleConfig \<and>
   Register (hostRefusing exampleConfig 0) 0 = Some (LibraryError ''already registered'') \<and>
   main_fixed (hostRefusing exampleConfig 0) ''config.json'' =
     Fatal (FailedToRegister ''temperature'' (LibraryError ''already registered'')) \<and>
   LoadConfig (hostRefusing exampleConfig 1) ''config.json'' = Inr exampleConfig \<and>
   Register (hostRefusing exampleConfig 1) 0 = None \<and>
   Register (hostRefusing exampleConfig 1) 1 = Some (LibraryError ''already registered'') \<and>
   main_fixed (hostRefusing exampleConfig 1) ''config.json'' =
     Fatal (FailedToRegister ''temperature'' (LibraryError ''already registered'')) \<and>
   1 < length (Metrics exampleConfig) \<and>
   (\<exists>f. main_gauges (hostRefusing exampleConfig 1) ''config.json'' = Fatal f) \<and>
   Locations exampleConfig \<noteq> [] \<and> Metrics exampleConfig \<noteq> [] \<and>
   (main_collector (hostRefusing exampleConfig 0) (upstreamAnswering exampleForecast)
      ''config.json'' = Fatal (FailedToRegister ''collector'' (LibraryError ''already registered'')) \<or>
    main_collector (hostRefusing exampleConfig 0) (upstreamAnswering exampleForecast)
      ''config.json'' = Crashed)"
proof -
  let ?up = "upstreamAnswering exampleForecast"
  let ?e = "LibraryError ''already registered''"
  note l = LoadConfig_examples [where path = "''config.json''"]
  have c: "Locations (exampleConfig\<lparr>Locations := []\<rparr>) = []"
    "Locations (exampleConfig\<lparr>Metrics := []\<rparr>) \<noteq> []"
    "Metrics (exampleConfig\<lparr>Metrics := []\<rparr>) = []"
    "1 < length (Metrics exampleConfig)"
    "Locations exampleConfig \<noteq> []" "Metrics exampleConfig \<noteq> []"
    by (simp_all add: exampleConfig_def)
  note r = Register_examples [where config = exampleConfig]
  note t1 = startup_failures_are_fatal [where host = hostWithoutFile and path = "''config.json''"
      and err = "FailedToReadConfigFile (LibraryError ''no such file'')",
      THEN conjunct1, THEN mp, OF l(1), THEN conjunct2, THEN conjunct2]
  note t2 = startup_failures_are_fatal [where host = "hostWith (exampleConfig\<lparr>Locations := []\<rparr>)"
      and path = "''config.json''" and config = "exampleConfig\<lparr>Locations := []\<rparr>",
      THEN conjunct2, THEN conjunct1, THEN mp, OF conjI, OF l(2) c(1), THEN conjunct2]
  note t3 = startup_failures_are_fatal [where host = "hostWith (exampleConfig\<lparr>Metrics := []\<rparr>)"
      and path = "''config.json''" and config = "exampleConfig\<lparr>Metrics := []\<rparr>" and up = ?up,
      THEN conjunct2, THEN conjunct2, THEN conjunct1, THEN mp, OF conjI [OF l(2) conjI [OF c(2,3)]],
      THEN conjunct1]
  note t4 = startup_failures_are_fatal [where host = "hostRefusing exampleConfig 0"
      and path = "''config.json''" and config = exampleConfig and err = ?e,
      THEN conjunct2, THEN conjunct2, THEN conjunct2, THEN conjunct1, THEN mp,
      OF conjI [OF l(3) r(1)]]
  note t5 = startup_failures_are_fatal [where host = "hostRefusing exampleConfig 1"
      and path = "''config.json''" and config = exampleConfig and err = ?e,
      THEN conjunct2, THEN conjunct2, THEN conjunct2, THEN conjunct2, THEN conjunct1, THEN mp,
      OF conjI [OF l(3) conjI [OF r(2,3)]]]
  note t6 = startup_failures_are_fatal [where host = "hostRefusing exampleConfig 1"
      and path = "''config.json''" and config = exampleConfig and err = ?e and i = 1,
      THEN conjunct2, THEN conjunct2, THEN conjunct2, THEN conjunct2, THEN conjunct2,
      THEN conjunct1, THEN mp, OF conjI [OF l(3) conjI [OF c(4) r(3)]]]
  note t7 = startup_failures_are_fatal [where host = "hostRefusing exampleConfig 0"
      and path = "''config.json''" and config = exampleConfig and err = ?e and up = ?up,
      THEN conjunct2, THEN conjunct2, THEN conjunct2, THEN conjunct2, THEN conjunct2,
      THEN conjunct2, THEN mp, OF conjI [OF l(3) conjI [OF c(5) conjI [OF c(6) r(1)]]]]
  show ?thesis
    by (intro conjI) (rule l c r t1 t2 t3 t4 t5 t6 t7)+
qed

end
